theory Spec2Isabelle
  imports Main "HOL-Library.Word"
begin

section \<open>The transcription filter of obs-localvocal\<close>

text \<open>
  A shallow embedding of \<^verbatim>\<open>src/transcription-filter.cpp\<close>. The filter state
  \<^verbatim>\<open>struct transcription_filter_data\<close> is a record that every operation takes and
  returns. Everything outside the struct (the log, the host's audio subsystem, the source
  registry, the file system, the recognition engine, threads) is the record \<open>world\<close>;
  the calls an operation makes on it are appended, in program order, to its \<open>history\<close>.
  A pointer that the source tests against \<^verbatim>\<open>nullptr\<close> is an \<open>option\<close>; dereferencing
  \<open>None\<close> without a test, destroying a joinable \<^verbatim>\<open>std::thread\<close>, or an assignment to
  a \<^verbatim>\<open>std::string\<close> that no constructor made and the library cannot take, is a
  \<open>crash\<close>.
\<close>

subsection \<open>Host objects\<close>

type_synonym byte = "8 word"

datatype whisper_context = WhisperContext nat
datatype thread = Thread nat
datatype obs_source = Source nat
datatype obs_weak_source = WeakSource nat
datatype obs_output = Output nat
datatype mutex = Mutex
datatype condition_variable = ConditionVariable

datatype lock = whisper_buf_lock | whisper_ctx_lock | text_source_lock

datatype speaker_layout =
    SPEAKERS_UNKNOWN | SPEAKERS_MONO | SPEAKERS_STEREO | SPEAKERS_2POINT1
  | SPEAKERS_4POINT0 | SPEAKERS_4POINT1 | SPEAKERS_5POINT1 | SPEAKERS_7POINT1

datatype audio_format = AUDIO_FORMAT_FLOAT_PLANAR

record resample_info =
  samples_per_sec :: nat
  format :: audio_format
  speakers :: speaker_layout

datatype audio_resampler = Resampler nat

text \<open>The memory that destruction gives back, one name per allocation.\<close>

datatype resource =
    text_source_name_mem
  | copy_buffers_mem
  | input_buffer_mem nat
  | info_buffer_mem
  | whisper_buf_mutex_mem
  | whisper_ctx_mutex_mem
  | wshiper_thread_cv_mem
  | text_source_mutex_mem
  | filter_data_mem

text \<open>
  A double of the settings is kept as the decimal literal that denotes it (mantissa and
  decimal exponent); the filter only stores and forwards these values.
\<close>

datatype double = Decimal int int

text \<open>A value of type \<^verbatim>\<open>float\<close>, as its 32 bits.\<close>

datatype float32 = Float32 "32 word"

datatype event =
    ObsLog int string
  | MutexLock lock
  | MutexUnlock lock
  | WhisperFree whisper_context
  | ContextStore "whisper_context option"
  | NotifyAll
  | ThreadJoin thread
  | ThreadStart thread
  | CheckModelExists string bool
  | InitWhisperContext string "whisper_context option"
  | DownloadModel string
  | GetSourceByName string "obs_source option"
  | GetWeakSource obs_source "obs_weak_source option"
  | WeakGetSource obs_weak_source "obs_source option"
  | SourceRelease obs_source
  | WeakSourceRelease obs_weak_source
  | SourceUpdateText obs_source string
  | OutputCaption obs_output string
  | OutputRelease obs_output
  | FileOpenTrunc string bool
  | FileWrite string string
  | FileClose string
  | ResamplerCreate resample_info resample_info
  | ResamplerDestroy audio_resampler
  | Release resource

text \<open>
  The world. \<open>audio_channels\<close> and \<open>audio_sample_rate\<close> answer
  \<^verbatim>\<open>audio_output_get_channels\<close> and \<^verbatim>\<open>audio_output_get_sample_rate\<close>;
  \<open>model_present\<close> answers \<^verbatim>\<open>check_if_model_exists\<close>; \<open>whisper_load\<close> is what the
  engine library makes of a weight file (\<open>None\<close>: the load fails);
  \<open>source_by_name\<close>, \<open>weak_of\<close> and \<open>weak_target\<close> answer
  \<^verbatim>\<open>obs_get_source_by_name\<close>, \<^verbatim>\<open>obs_source_get_weak_source\<close> and
  \<^verbatim>\<open>obs_weak_source_get_source\<close>; \<open>source_text\<close> is the \<^verbatim>\<open>"text"\<close> setting of a
  source; \<open>files\<close> is the file system, and \<open>openable path\<close> says whether a
  \<^verbatim>\<open>std::ofstream\<close> on \<open>path\<close> opens (it does not when a directory of the path is
  missing or the file may not be written). \<open>BUFFER_SIZE_MSEC\<close>, \<open>OVERLAP_SIZE_MSEC\<close> and
  \<open>WHISPER_SAMPLE_RATE\<close> are macros of headers that are not part of the sources,
  \<open>msec_to_frames rate ms\<close> stands for the single-precision expression
  \<^verbatim>\<open>(size_t)((float)rate / (1000.0f / (float)ms))\<close>, and \<open>float_cast\<close> for the cast
  \<^verbatim>\<open>(float)\<close> of a double; all five are parameters.

  \<open>zeroed_string_assign v\<close> says what the standard library does when the value \<open>v\<close> is
  assigned to a \<^verbatim>\<open>std::string\<close> whose bytes are all zero and on which no constructor
  ran: \<open>True\<close> when the member then holds \<open>v\<close>, \<open>False\<close> when the process dies. The
  language leaves the assignment undefined; see \<open>libstdcxx_assign\<close> below for one library.
\<close>

record world =
  history :: "event list"
  audio_channels :: nat
  audio_sample_rate :: nat
  model_present :: "string \<Rightarrow> bool"
  whisper_load :: "string \<Rightarrow> whisper_context option"
  threads_started :: nat
  resampler_of :: "resample_info \<Rightarrow> resample_info \<Rightarrow> audio_resampler option"
  streaming_output :: "obs_output option"
  source_by_name :: "string \<Rightarrow> obs_source option"
  weak_of :: "obs_source \<Rightarrow> obs_weak_source option"
  weak_target :: "obs_weak_source \<Rightarrow> obs_source option"
  source_text :: "obs_source \<Rightarrow> string"
  files :: "string \<Rightarrow> string option"
  openable :: "string \<Rightarrow> bool"
  zeroed_string_assign :: "string \<Rightarrow> bool"
  float_cast :: "double \<Rightarrow> float32"
  BUFFER_SIZE_MSEC :: nat
  OVERLAP_SIZE_MSEC :: nat
  WHISPER_SAMPLE_RATE :: nat
  msec_to_frames :: "nat \<Rightarrow> nat \<Rightarrow> nat"

definition emit :: "event list \<Rightarrow> world \<Rightarrow> world" where
  "emit es w = w\<lparr>history := history w @ es\<rparr>"

text \<open>Log levels of the host (\<^verbatim>\<open>util/base.h\<close>).\<close>

definition LOG_ERROR :: int where "LOG_ERROR = 100"
definition LOG_WARNING :: int where "LOG_WARNING = 200"
definition LOG_INFO :: int where "LOG_INFO = 300"
definition LOG_DEBUG :: int where "LOG_DEBUG = 400"

definition obs_log :: "int \<Rightarrow> string \<Rightarrow> world \<Rightarrow> world" where
  "obs_log level msg w = emit [ObsLog level msg] w"

datatype crash = NullDereference | Terminate | UndefinedBehaviour

subsection \<open>Audio packets and ring buffers\<close>

text \<open>
  \<^verbatim>\<open>struct obs_audio_data\<close>: the planes \<^verbatim>\<open>uint8_t *data[MAX_AV_PLANES]\<close> (each plane is
  the bytes it points to), the frame count (\<^verbatim>\<open>uint32_t\<close>) and the timestamp
  (\<^verbatim>\<open>uint64_t\<close>).
\<close>

record obs_audio_data =
  a_data :: "byte list list"
  a_frames :: "32 word"
  a_timestamp :: "64 word"

record transcription_filter_audio_info =
  info_frames :: "32 word"
  info_timestamp :: "64 word"

definition sizeof_float :: nat where
  "sizeof_float = 4"

definition MAX_AUDIO_CHANNELS :: nat where
  "MAX_AUDIO_CHANNELS = 8"

text \<open>
  Modelled from the spec: the host's \<^verbatim>\<open>circlebuf\<close> (\<^verbatim>\<open>util/circlebuf.h\<close> is not part of
  the sources). Section 4.1: a push appends raw bytes, the buffer grows on demand and is
  never shrunk by the producer. A buffer is the list of the bytes it holds, oldest first;
  its \<^verbatim>\<open>size\<close> field is the length. \<open>circlebuf_push_back cb src n\<close> appends the first
  \<open>n\<close> bytes found at \<open>src\<close>.
\<close>

type_synonym circlebuf = "byte list"

definition circlebuf_init :: circlebuf where
  "circlebuf_init = []"

definition circlebuf_size :: "circlebuf \<Rightarrow> nat" where
  "circlebuf_size cb = length cb"

definition circlebuf_push_back :: "circlebuf \<Rightarrow> byte list \<Rightarrow> nat \<Rightarrow> circlebuf" where
  "circlebuf_push_back cb src n = cb @ take n src"

subsection \<open>The filter state\<close>

text \<open>
  The fields of \<^verbatim>\<open>whisper_full_params\<close> that the filter assigns. The other fields keep
  what \<^verbatim>\<open>whisper_full_default_params\<close> put there for the chosen \<open>strategy\<close>.
\<close>

record whisper_full_params =
  strategy :: int
  duration_ms :: nat
  language :: string
  initial_prompt :: string
  n_threads :: int
  n_max_text_ctx :: int
  translate :: bool
  no_context :: bool
  single_segment :: bool
  print_special :: bool
  print_progress :: bool
  print_realtime :: bool
  print_timestamps :: bool
  token_timestamps :: bool
  thold_pt :: float32
  thold_ptsum :: float32
  max_len :: int
  split_on_word :: bool
  max_tokens :: int
  speed_up :: bool
  suppress_blank :: bool
  suppress_non_speech_tokens :: bool
  temperature :: float32
  max_initial_ts :: float32
  length_penalty :: float32

text \<open>
  \<^verbatim>\<open>struct transcription_filter_data\<close>, with the fields this file reads or writes.
  \<open>copy_buffers\<close> is the one allocation of \<open>channels * frames\<close> floats behind
  \<^verbatim>\<open>copy_buffers[0]\<close> (\<open>None\<close> once freed); \<open>whisper_thread\<close> is \<open>Some t\<close> exactly when
  the \<^verbatim>\<open>std::thread\<close> is joinable.
\<close>

record transcription_filter_data =
  filter_context :: "obs_source option"
  channels :: nat
  sample_rate :: nat
  frames :: nat
  overlap_frames :: nat
  overlap_ms :: nat
  last_num_frames :: nat
  active :: bool
  log_level :: int
  vad_enabled :: bool
  log_words :: bool
  caption_to_stream :: bool
  input_buffers :: "circlebuf list"
  info_buffer :: "transcription_filter_audio_info list"
  copy_buffers :: "nat option"
  resampler :: "audio_resampler option"
  whisper_model_path :: string
  whisper_context :: "whisper_context option"
  whisper_params :: whisper_full_params
  whisper_thread :: "thread option"
  whisper_buf_mutex :: "mutex option"
  whisper_ctx_mutex :: "mutex option"
  wshiper_thread_cv :: "condition_variable option"
  text_source_mutex :: "mutex option"
  text_source :: "obs_weak_source option"
  text_source_name :: "string option"
  output_file_path :: string

subsection \<open>Ingest: \<^verbatim>\<open>transcription_filter_filter_audio\<close>\<close>

text \<open>
  Lines 78 to 93, the block under the buffer lock: the log line, one push per channel
  \<open>c < channels\<close> of \<open>frames * sizeof(float)\<close> bytes of plane \<open>c\<close>, and one push of the
  packet's metadata record. The product is formed in \<^verbatim>\<open>size_t\<close>, which holds
  \<open>4 * (2 ^ 32 - 1)\<close>.
\<close>

definition push_channel ::
  "obs_audio_data \<Rightarrow> nat \<Rightarrow> circlebuf list \<Rightarrow> circlebuf list" where
  "push_channel audio c bufs =
     bufs[c := circlebuf_push_back (bufs ! c) (a_data audio ! c)
                 (unat (a_frames audio) * sizeof_float)]"

definition push_audio ::
  "transcription_filter_data \<Rightarrow> obs_audio_data \<Rightarrow> transcription_filter_data" where
  "push_audio gf audio =
     gf\<lparr>input_buffers := fold (push_channel audio) [0..<channels gf] (input_buffers gf),
        info_buffer := info_buffer gf @
          [\<lparr>info_frames = a_frames audio, info_timestamp = a_timestamp audio\<rparr>]\<rparr>"

text \<open>
  The whole entry point. \<open>data\<close> and \<open>audio\<close> are the two pointer arguments; the result
  is the world, the filter state behind \<open>data\<close>, and the returned pointer.
\<close>

definition transcription_filter_filter_audio ::
  "world \<Rightarrow> transcription_filter_data option \<Rightarrow> obs_audio_data option \<Rightarrow>
     world \<times> transcription_filter_data option \<times> obs_audio_data option" where
  "transcription_filter_filter_audio w data audio =
     (case audio of
        None \<Rightarrow> (w, data, None)
      | Some a \<Rightarrow>
          (case data of
             None \<Rightarrow> (w, None, Some a)
           | Some gf \<Rightarrow>
               if \<not> active gf then (w, Some gf, Some a)
               else if whisper_context gf = None then (w, Some gf, Some a)
               else if whisper_buf_mutex gf = None \<or> whisper_ctx_mutex gf = None then
                 (obs_log LOG_ERROR ''whisper mutexes are null'' w, Some gf, Some a)
               else
                 (emit [MutexLock whisper_buf_lock,
                        ObsLog (log_level gf)
                          ''pushing %lu frames to input buffer. current size: %lu (bytes)'',
                        MutexUnlock whisper_buf_lock] w,
                  Some (push_audio gf a), Some a)))"

text \<open>A run of the entry point over the packets the host delivers, in order.\<close>

fun filter_audio_all ::
  "world \<Rightarrow> transcription_filter_data \<Rightarrow> obs_audio_data list \<Rightarrow>
     world \<times> transcription_filter_data" where
  "filter_audio_all w gf [] = (w, gf)"
| "filter_audio_all w gf (a # as) =
     (case transcription_filter_filter_audio w (Some gf) (Some a) of
        (w', Some gf', _) \<Rightarrow> filter_audio_all w' gf' as
      | (w', None, _) \<Rightarrow> (w', gf))"

subsection \<open>Settings: \<^verbatim>\<open>obs_data_t\<close>\<close>

text \<open>
  The host's settings object: named items, each with an optional user value and an
  optional default. A getter answers the user value, else the default, else the zero of
  its type (\<^verbatim>\<open>""\<close>, never a null pointer, for strings).
\<close>

datatype obs_value = OBool bool | OInt int | ODouble double | OString string

record obs_data =
  user_items :: "string \<Rightarrow> obs_value option"
  default_items :: "string \<Rightarrow> obs_value option"

definition obs_data_item :: "obs_data \<Rightarrow> string \<Rightarrow> obs_value option" where
  "obs_data_item s name =
     (case user_items s name of Some v \<Rightarrow> Some v | None \<Rightarrow> default_items s name)"

definition obs_data_get_bool :: "obs_data \<Rightarrow> string \<Rightarrow> bool" where
  "obs_data_get_bool s name = (case obs_data_item s name of Some (OBool b) \<Rightarrow> b | _ \<Rightarrow> False)"

definition obs_data_get_int :: "obs_data \<Rightarrow> string \<Rightarrow> int" where
  "obs_data_get_int s name = (case obs_data_item s name of Some (OInt i) \<Rightarrow> i | _ \<Rightarrow> 0)"

definition obs_data_get_double :: "obs_data \<Rightarrow> string \<Rightarrow> double" where
  "obs_data_get_double s name =
     (case obs_data_item s name of Some (ODouble d) \<Rightarrow> d | _ \<Rightarrow> Decimal 0 0)"

definition obs_data_get_string :: "obs_data \<Rightarrow> string \<Rightarrow> string" where
  "obs_data_get_string s name =
     (case obs_data_item s name of Some (OString x) \<Rightarrow> x | _ \<Rightarrow> [])"

definition obs_data_set_default :: "string \<Rightarrow> obs_value \<Rightarrow> obs_data \<Rightarrow> obs_data" where
  "obs_data_set_default name v s = s\<lparr>default_items := (default_items s)(name \<mapsto> v)\<rparr>"

text \<open>The cast \<^verbatim>\<open>(int)\<close> of a \<^verbatim>\<open>long long\<close>: the low 32 bits, read as two's complement.\<close>

definition int_cast :: "int \<Rightarrow> int" where
  "int_cast x = sint (word_of_int x :: 32 word)"

definition WHISPER_SAMPLING_GREEDY :: int where "WHISPER_SAMPLING_GREEDY = 0"
definition WHISPER_SAMPLING_BEAM_SEARCH :: int where "WHISPER_SAMPLING_BEAM_SEARCH = 1"

subsection \<open>\<^verbatim>\<open>transcription_filter_defaults\<close>\<close>

definition transcription_filter_defaults :: "obs_data \<Rightarrow> obs_data" where
  "transcription_filter_defaults s =
     fold (\<lambda>(name, v). obs_data_set_default name v)
       [(''vad_enabled'', OBool True),
        (''log_level'', OInt LOG_DEBUG),
        (''log_words'', OBool True),
        (''caption_to_stream'', OBool False),
        (''whisper_model_path'', OString ''models/ggml-tiny.en.bin''),
        (''whisper_language_select'', OString ''en''),
        (''subtitle_sources'', OString ''none''),
        (''whisper_sampling_method'', OInt WHISPER_SAMPLING_BEAM_SEARCH),
        (''initial_prompt'', OString []),
        (''n_threads'', OInt 4),
        (''n_max_text_ctx'', OInt 16384),
        (''translate'', OBool False),
        (''no_context'', OBool True),
        (''single_segment'', OBool True),
        (''print_special'', OBool False),
        (''print_progress'', OBool False),
        (''print_realtime'', OBool False),
        (''print_timestamps'', OBool False),
        (''token_timestamps'', OBool False),
        (''thold_pt'', ODouble (Decimal 1 (- 2))),
        (''thold_ptsum'', ODouble (Decimal 1 (- 2))),
        (''max_len'', OInt 0),
        (''split_on_word'', OBool False),
        (''max_tokens'', OInt 32),
        (''speed_up'', OBool False),
        (''suppress_blank'', OBool False),
        (''suppress_non_speech_tokens'', OBool True),
        (''temperature'', ODouble (Decimal 5 (- 1))),
        (''max_initial_ts'', ODouble (Decimal 10 (- 1))),
        (''length_penalty'', ODouble (Decimal (- 10) (- 1)))]
       s"

subsection \<open>Output routing: \<^verbatim>\<open>acquire_weak_text_source_ref\<close> and \<^verbatim>\<open>set_text_callback\<close>\<close>

definition acquire_weak_text_source_ref ::
  "world \<Rightarrow> transcription_filter_data \<Rightarrow> crash + world \<times> transcription_filter_data" where
  "acquire_weak_text_source_ref w gf =
     (case text_source_name gf of
        None \<Rightarrow> Inr (obs_log LOG_ERROR ''text_source_name is null'' w, gf)
      | Some name \<Rightarrow>
          (case text_source_mutex gf of
             None \<Rightarrow> Inl NullDereference
           | Some _ \<Rightarrow>
               let w1 = emit [MutexLock text_source_lock,
                              GetSourceByName name (source_by_name w name)] w
               in (case source_by_name w name of
                     Some source \<Rightarrow>
                       let gf1 = gf\<lparr>text_source := weak_of w source\<rparr>;
                           w2 = emit [GetWeakSource source (weak_of w source),
                                      SourceRelease source] w1
                       in if text_source gf1 = None
                          then Inr (emit [ObsLog LOG_ERROR
                                            ''failed to get weak source for text source %s'',
                                          MutexUnlock text_source_lock] w2, gf1)
                          else Inr (emit [MutexUnlock text_source_lock] w2, gf1)
                   | None \<Rightarrow>
                       Inr (emit [ObsLog LOG_ERROR ''text source '%s' not found'',
                                  MutexUnlock text_source_lock] w1, gf))))"

text \<open>
  The file sink, lines 190 to 192. The stream opens the path with
  \<^verbatim>\<open>std::ios::out | std::ios::trunc\<close>: when the path opens, the file is emptied (or
  created); when it does not, the stream is in its failed state. The source does not test
  the stream: \<^verbatim>\<open><<\<close> puts the text at the end of what an open file holds and does
  nothing on a failed stream, and so does \<^verbatim>\<open>close\<close>. The flag handed from one step to
  the next is the state of the stream (\<open>True\<close>: open).
\<close>

definition ofstream_open_trunc :: "string \<Rightarrow> world \<Rightarrow> bool \<times> world" where
  "ofstream_open_trunc path w =
     (if openable w path
      then (True, emit [FileOpenTrunc path True] (w\<lparr>files := (files w)(path \<mapsto> [])\<rparr>))
      else (False, emit [FileOpenTrunc path False] w))"

definition ofstream_write :: "bool \<Rightarrow> string \<Rightarrow> string \<Rightarrow> world \<Rightarrow> world" where
  "ofstream_write is_open path str w =
     (if is_open
      then emit [FileWrite path str]
             (w\<lparr>files := (files w)(path \<mapsto>
                   (case files w path of Some old \<Rightarrow> old @ str | None \<Rightarrow> str))\<rparr>)
      else w)"

definition ofstream_close :: "bool \<Rightarrow> string \<Rightarrow> world \<Rightarrow> world" where
  "ofstream_close is_open path w = (if is_open then emit [FileClose path] w else w)"

definition caption_stream :: "transcription_filter_data \<Rightarrow> string \<Rightarrow> world \<Rightarrow> world" where
  "caption_stream gf str w =
     (if caption_to_stream gf
      then (case streaming_output w of
              Some out \<Rightarrow> emit [OutputCaption out str, OutputRelease out] w
            | None \<Rightarrow> w)
      else w)"

definition set_text_callback ::
  "world \<Rightarrow> transcription_filter_data \<Rightarrow> string \<Rightarrow>
     crash + world \<times> transcription_filter_data" where
  "set_text_callback w gf str =
     (let w0 = caption_stream gf str w in
      if output_file_path gf \<noteq> [] \<and> text_source_name gf = None then
        (let (is_open, w1) = ofstream_open_trunc (output_file_path gf) w0
         in Inr (ofstream_close is_open (output_file_path gf)
                   (ofstream_write is_open (output_file_path gf) str w1), gf))
      else if text_source_mutex gf = None then
        Inr (obs_log LOG_ERROR ''text_source_mutex is null'' w0, gf)
      else
        (case (if text_source gf = None then acquire_weak_text_source_ref w0 gf
               else Inr (w0, gf)) of
           Inl c \<Rightarrow> Inl c
         | Inr (w1, gf1) \<Rightarrow>
             let w2 = emit [MutexLock text_source_lock] w1 in
             (case text_source gf1 of
                None \<Rightarrow>
                  Inr (emit [ObsLog LOG_ERROR ''text_source is null'',
                             MutexUnlock text_source_lock] w2, gf1)
              | Some weak \<Rightarrow>
                  (case weak_target w weak of
                     None \<Rightarrow>
                       Inr (emit [WeakGetSource weak None,
                                  ObsLog LOG_ERROR ''text_source target is null'',
                                  MutexUnlock text_source_lock] w2, gf1)
                   | Some target \<Rightarrow>
                       Inr ((emit [WeakGetSource weak (Some target),
                                   SourceUpdateText target str,
                                   SourceRelease target,
                                   MutexUnlock text_source_lock] w2)
                              \<lparr>source_text := (source_text w)(target := str)\<rparr>, gf1)))))"

subsection \<open>Engine and worker thread\<close>

text \<open>
  Modelled from the spec: \<^verbatim>\<open>init_whisper_context\<close> (\<^verbatim>\<open>whisper-processing.cpp\<close> is not
  part of the sources). Section 6: \<^verbatim>\<open>create(model_path) -> handle | failure\<close>;
  section 4.4: when the creation of the engine handle fails, an error is reported.
\<close>

definition init_whisper_context :: "string \<Rightarrow> world \<Rightarrow> whisper_context option \<times> world" where
  "init_whisper_context path w =
     (case whisper_load w path of
        Some ctx \<Rightarrow> (Some ctx, emit [InitWhisperContext path (Some ctx)] w)
      | None \<Rightarrow>
          (None, emit [InitWhisperContext path None,
                       ObsLog LOG_ERROR ''Failed to load whisper model''] w))"

text \<open>
  \<^verbatim>\<open>gf->whisper_context = init_whisper_context(gf->whisper_model_path)\<close>, as lines 322,
  332 and 400 have it.
\<close>

definition load_whisper_context ::
  "world \<Rightarrow> transcription_filter_data \<Rightarrow> world \<times> transcription_filter_data" where
  "load_whisper_context w gf =
     (let (ctx, w1) = init_whisper_context (whisper_model_path gf) w
      in (emit [ContextStore ctx] w1, gf\<lparr>whisper_context := ctx\<rparr>))"

text \<open>
  \<^verbatim>\<open>std::thread new_whisper_thread(whisper_loop, gf); gf->whisper_thread.swap(new_whisper_thread);\<close>
  as lines 324, 333 and 438 have it. The running thread goes into the field; what the
  field held before goes into the local, whose destructor runs at the end of the block and
  calls \<^verbatim>\<open>std::terminate\<close> when that thread is joinable.
\<close>

definition start_whisper_thread ::
  "world \<Rightarrow> transcription_filter_data \<Rightarrow> crash + world \<times> transcription_filter_data" where
  "start_whisper_thread w gf =
     (let t = Thread (threads_started w);
          w1 = emit [ThreadStart t] (w\<lparr>threads_started := Suc (threads_started w)\<rparr>)
      in case whisper_thread gf of
           Some old \<Rightarrow> Inl Terminate
         | None \<Rightarrow> Inr (w1, gf\<lparr>whisper_thread := Some t\<rparr>))"

text \<open>Lines 299 to 309: free the engine under its lock, or return from the update.\<close>

datatype 'a flow = Returned 'a | Next 'a

definition release_whisper_context ::
  "world \<Rightarrow> transcription_filter_data \<Rightarrow> (world \<times> transcription_filter_data) flow" where
  "release_whisper_context w gf =
     (case whisper_context gf of
        None \<Rightarrow> Next (w, gf)
      | Some ctx \<Rightarrow>
          if whisper_ctx_mutex gf = None \<or> wshiper_thread_cv gf = None
          then Returned (obs_log LOG_ERROR ''whisper_ctx_mutex is null'' w, gf)
          else Next (emit [MutexLock whisper_ctx_lock, WhisperFree ctx, ContextStore None,
                           NotifyAll, MutexUnlock whisper_ctx_lock] w,
                     gf\<lparr>whisper_context := None\<rparr>))"

text \<open>Lines 310 to 312 (and 120 to 122): join the worker when there is one to join.\<close>

definition join_whisper_thread ::
  "world \<Rightarrow> transcription_filter_data \<Rightarrow> world \<times> transcription_filter_data" where
  "join_whisper_thread w gf =
     (case whisper_thread gf of
        Some t \<Rightarrow> (emit [ThreadJoin t] w, gf\<lparr>whisper_thread := None\<rparr>)
      | None \<Rightarrow> (w, gf))"

text \<open>
  The completion callback handed to \<^verbatim>\<open>download_model_with_ui_dialog\<close> (lines 319 to
  329); the downloader calls it later, with the status of the download.
\<close>

definition download_callback ::
  "world \<Rightarrow> transcription_filter_data \<Rightarrow> int \<Rightarrow> crash + world \<times> transcription_filter_data" where
  "download_callback w gf download_status =
     (if download_status = 0 then
        (let (w1, gf1) = load_whisper_context (obs_log LOG_INFO ''Model download complete'' w) gf
         in start_whisper_thread w1 gf1)
      else Inr (obs_log LOG_ERROR ''Model download failed'' w, gf))"

subsection \<open>\<^verbatim>\<open>transcription_filter_update\<close>\<close>

text \<open>
  Lines 242 to 250 (and again 269 to 277): take the cached weak reference out of the
  state under the sink lock, or return from the update when the lock is missing.
\<close>

definition detach_text_source ::
  "world \<Rightarrow> transcription_filter_data \<Rightarrow>
     (world \<times> transcription_filter_data \<times> obs_weak_source option) flow" where
  "detach_text_source w gf =
     (case text_source gf of
        None \<Rightarrow> Next (w, gf, None)
      | Some weak \<Rightarrow>
          if text_source_mutex gf = None
          then Returned (obs_log LOG_ERROR ''text_source_mutex is null'' w, gf, None)
          else Next (emit [MutexLock text_source_lock, MutexUnlock text_source_lock] w,
                     gf\<lparr>text_source := None\<rparr>, Some weak))"

definition free_text_source_name ::
  "world \<Rightarrow> transcription_filter_data \<Rightarrow> world \<times> transcription_filter_data" where
  "free_text_source_name w gf =
     (case text_source_name gf of
        None \<Rightarrow> (w, gf)
      | Some _ \<Rightarrow> (emit [Release text_source_name_mem] w, gf\<lparr>text_source_name := None\<rparr>))"

definition release_old_text_source ::
  "obs_weak_source option \<Rightarrow> world \<Rightarrow> transcription_filter_data \<Rightarrow> world" where
  "release_old_text_source old w gf =
     (case old of
        None \<Rightarrow> w
      | Some weak \<Rightarrow>
          emit [ObsLog (log_level gf) ''releasing old text source'', WeakSourceRelease weak] w)"

text \<open>Lines 235 to 290, the text sink.\<close>

definition update_text_source ::
  "world \<Rightarrow> transcription_filter_data \<Rightarrow> obs_data \<Rightarrow>
     (world \<times> transcription_filter_data) flow" where
  "update_text_source w gf s =
     (let new_text_source_name = obs_data_get_string s ''subtitle_sources'' in
      if new_text_source_name = ''none'' \<or> new_text_source_name = ''(null)'' \<or>
         new_text_source_name = ''text_file'' \<or> length new_text_source_name = 0 then
        (case detach_text_source w gf of
           Returned (w1, gf1, old) \<Rightarrow> Returned (w1, gf1)
         | Next (w1, gf1, old) \<Rightarrow>
             let (w2, gf2) = free_text_source_name w1 gf1;
                 gf3 = gf2\<lparr>output_file_path := []\<rparr>;
                 output_file_path' = obs_data_get_string s ''subtitle_output_filename'';
                 gf4 = (if new_text_source_name = ''text_file'' \<and> length output_file_path' > 0
                        then gf3\<lparr>output_file_path := output_file_path'\<rparr> else gf3)
             in Next (release_old_text_source old w2 gf4, gf4))
      else if text_source_name gf = None \<or> Some new_text_source_name \<noteq> text_source_name gf then
        (case detach_text_source w gf of
           Returned (w1, gf1, old) \<Rightarrow> Returned (w1, gf1)
         | Next (w1, gf1, old) \<Rightarrow>
             let (w2, gf2) = free_text_source_name w1 gf1;
                 gf3 = gf2\<lparr>text_source_name := Some new_text_source_name\<rparr>
             in Next (release_old_text_source old w2 gf3, gf3))
      else Next (w, gf))"

text \<open>Lines 294 to 336, the model.\<close>

definition update_whisper_model ::
  "world \<Rightarrow> transcription_filter_data \<Rightarrow> obs_data \<Rightarrow>
     crash + (world \<times> transcription_filter_data) flow" where
  "update_whisper_model w gf s =
     (let new_model_path = obs_data_get_string s ''whisper_model_path'' in
      if new_model_path \<noteq> whisper_model_path gf then
        (case release_whisper_context
                (obs_log LOG_INFO ''model path changed, reloading model'' w) gf of
           Returned x \<Rightarrow> Inr (Returned x)
         | Next (w1, gf1) \<Rightarrow>
             let (w2, gf2) = join_whisper_thread w1 gf1;
                 gf3 = gf2\<lparr>whisper_model_path := new_model_path\<rparr>
             in if \<not> model_present w2 (whisper_model_path gf3) then
                  Inr (Next (emit [CheckModelExists (whisper_model_path gf3) False,
                                   ObsLog LOG_ERROR ''Whisper model does not exist'',
                                   DownloadModel (whisper_model_path gf3)] w2, gf3))
                else
                  (let (w3, gf4) =
                         load_whisper_context
                           (emit [CheckModelExists (whisper_model_path gf3) True] w2) gf3
                   in case start_whisper_thread w3 gf4 of
                        Inl c \<Rightarrow> Inl c
                      | Inr x \<Rightarrow> Inr (Next x)))
      else Inr (Next (w, gf)))"

text \<open>Lines 346 to 372, the engine parameters read from the settings.\<close>

definition read_whisper_params :: "world \<Rightarrow> obs_data \<Rightarrow> whisper_full_params" where
  "read_whisper_params w s =
     \<lparr>strategy = int_cast (obs_data_get_int s ''whisper_sampling_method''),
      duration_ms = BUFFER_SIZE_MSEC w,
      language = obs_data_get_string s ''whisper_language_select'',
      initial_prompt = obs_data_get_string s ''initial_prompt'',
      n_threads = int_cast (obs_data_get_int s ''n_threads''),
      n_max_text_ctx = int_cast (obs_data_get_int s ''n_max_text_ctx''),
      translate = obs_data_get_bool s ''translate'',
      no_context = obs_data_get_bool s ''no_context'',
      single_segment = obs_data_get_bool s ''single_segment'',
      print_special = obs_data_get_bool s ''print_special'',
      print_progress = obs_data_get_bool s ''print_progress'',
      print_realtime = obs_data_get_bool s ''print_realtime'',
      print_timestamps = obs_data_get_bool s ''print_timestamps'',
      token_timestamps = obs_data_get_bool s ''token_timestamps'',
      thold_pt = float_cast w (obs_data_get_double s ''thold_pt''),
      thold_ptsum = float_cast w (obs_data_get_double s ''thold_ptsum''),
      max_len = int_cast (obs_data_get_int s ''max_len''),
      split_on_word = obs_data_get_bool s ''split_on_word'',
      max_tokens = int_cast (obs_data_get_int s ''max_tokens''),
      speed_up = obs_data_get_bool s ''speed_up'',
      suppress_blank = obs_data_get_bool s ''suppress_blank'',
      suppress_non_speech_tokens = obs_data_get_bool s ''suppress_non_speech_tokens'',
      temperature = float_cast w (obs_data_get_double s ''temperature''),
      max_initial_ts = float_cast w (obs_data_get_double s ''max_initial_ts''),
      length_penalty = float_cast w (obs_data_get_double s ''length_penalty'')\<rparr>"

definition update_whisper_params ::
  "world \<Rightarrow> transcription_filter_data \<Rightarrow> obs_data \<Rightarrow> world \<times> transcription_filter_data" where
  "update_whisper_params w gf s =
     (if whisper_ctx_mutex gf = None
      then (obs_log LOG_ERROR ''whisper_ctx_mutex is null'' w, gf)
      else (emit [ObsLog (log_level gf) ''transcription_filter: update whisper params'',
                  MutexLock whisper_ctx_lock, MutexUnlock whisper_ctx_lock] w,
            gf\<lparr>whisper_params := read_whisper_params w s\<rparr>))"

definition transcription_filter_update ::
  "world \<Rightarrow> transcription_filter_data \<Rightarrow> obs_data \<Rightarrow>
     crash + world \<times> transcription_filter_data" where
  "transcription_filter_update w gf s =
     (let w0 = obs_log (log_level gf) ''transcription_filter_update'' w;
          gf0 = gf\<lparr>log_level := int_cast (obs_data_get_int s ''log_level''),
                   vad_enabled := obs_data_get_bool s ''vad_enabled'',
                   log_words := obs_data_get_bool s ''log_words'',
                   caption_to_stream := obs_data_get_bool s ''caption_to_stream''\<rparr>;
          w1 = obs_log (log_level gf0) ''transcription_filter: update text source'' w0
      in case update_text_source w1 gf0 s of
           Returned x \<Rightarrow> Inr x
         | Next (w2, gf2) \<Rightarrow>
             (case update_whisper_model
                     (obs_log (log_level gf2) ''transcription_filter: update whisper model'' w2)
                     gf2 s of
                Inl c \<Rightarrow> Inl c
              | Inr (Returned x) \<Rightarrow> Inr x
              | Inr (Next (w3, gf3)) \<Rightarrow> Inr (update_whisper_params w3 gf3 s)))"

subsection \<open>\<^verbatim>\<open>transcription_filter_create\<close>\<close>

definition convert_speaker_layout :: "8 word \<Rightarrow> speaker_layout" where
  "convert_speaker_layout n =
     (if n = 0 then SPEAKERS_UNKNOWN
      else if n = 1 then SPEAKERS_MONO
      else if n = 2 then SPEAKERS_STEREO
      else if n = 3 then SPEAKERS_2POINT1
      else if n = 4 then SPEAKERS_4POINT0
      else if n = 5 then SPEAKERS_4POINT1
      else if n = 6 then SPEAKERS_5POINT1
      else if n = 8 then SPEAKERS_7POINT1
      else SPEAKERS_UNKNOWN)"

text \<open>The struct as \<^verbatim>\<open>bzalloc\<close> returns it: every byte zero.\<close>

definition zero_whisper_params :: whisper_full_params where
  "zero_whisper_params =
     \<lparr>strategy = 0, duration_ms = 0, language = [], initial_prompt = [], n_threads = 0,
      n_max_text_ctx = 0, translate = False, no_context = False, single_segment = False,
      print_special = False, print_progress = False, print_realtime = False,
      print_timestamps = False, token_timestamps = False, thold_pt = Float32 0,
      thold_ptsum = Float32 0, max_len = 0, split_on_word = False, max_tokens = 0,
      speed_up = False, suppress_blank = False, suppress_non_speech_tokens = False,
      temperature = Float32 0, max_initial_ts = Float32 0, length_penalty = Float32 0\<rparr>"

definition zero_filter_data :: transcription_filter_data where
  "zero_filter_data =
     \<lparr>filter_context = None, channels = 0, sample_rate = 0, frames = 0, overlap_frames = 0,
      overlap_ms = 0, last_num_frames = 0, active = False, log_level = 0,
      vad_enabled = False, log_words = False, caption_to_stream = False,
      input_buffers = replicate MAX_AUDIO_CHANNELS [], info_buffer = [],
      copy_buffers = None, resampler = None, whisper_model_path = [],
      whisper_context = None, whisper_params = zero_whisper_params, whisper_thread = None,
      whisper_buf_mutex = None, whisper_ctx_mutex = None, wshiper_thread_cv = None,
      text_source_mutex = None, text_source = None, text_source_name = None,
      output_file_path = []\<rparr>"

text \<open>
  Lines 377 to 399: the buffers and the model path. The struct is the zeroed memory of
  line 377 and no constructor runs on its \<^verbatim>\<open>std::string\<close> members, so the assignment of
  line 399 to \<^verbatim>\<open>whisper_model_path\<close> goes as \<open>zeroed_string_assign\<close> says.
\<close>

definition create_buffers ::
  "world \<Rightarrow> obs_data \<Rightarrow> obs_source option \<Rightarrow> crash + transcription_filter_data" where
  "create_buffers w settings source =
     (let gf = zero_filter_data
                 \<lparr>channels := audio_channels w, sample_rate := audio_sample_rate w\<rparr>;
          gf = gf\<lparr>frames := msec_to_frames w (sample_rate gf) (BUFFER_SIZE_MSEC w),
                  last_num_frames := 0\<rparr>;
          gf = gf\<lparr>input_buffers := replicate MAX_AUDIO_CHANNELS circlebuf_init,
                  info_buffer := []\<rparr>;
          gf = gf\<lparr>copy_buffers := Some (channels gf * frames gf)\<rparr>;
          gf = gf\<lparr>filter_context := source\<rparr>
      in if zeroed_string_assign w (obs_data_get_string settings ''whisper_model_path'')
         then Inr (gf\<lparr>whisper_model_path :=
                       obs_data_get_string settings ''whisper_model_path''\<rparr>)
         else Inl UndefinedBehaviour)"

text \<open>
  Lines 406 to 430: overlap, resampler, synchronisation objects and sink fields. The
  assignment of line 430 to \<^verbatim>\<open>output_file_path\<close> is the first to that member, whose
  bytes are still the zeros of line 377.
\<close>

definition create_sync ::
  "world \<Rightarrow> obs_data \<Rightarrow> transcription_filter_data \<Rightarrow>
     crash + world \<times> transcription_filter_data" where
  "create_sync w settings gf =
     (let gf = gf\<lparr>overlap_ms := OVERLAP_SIZE_MSEC w\<rparr>;
          gf = gf\<lparr>overlap_frames := msec_to_frames w (sample_rate gf) (overlap_ms gf)\<rparr>;
          src = \<lparr>samples_per_sec = sample_rate gf, format = AUDIO_FORMAT_FLOAT_PLANAR,
                 speakers = convert_speaker_layout (of_nat (channels gf))\<rparr>;
          dst = \<lparr>samples_per_sec = WHISPER_SAMPLE_RATE w, format = AUDIO_FORMAT_FLOAT_PLANAR,
                 speakers = convert_speaker_layout 1\<rparr>;
          w = emit [ObsLog (log_level gf)
                      ''transcription_filter: channels %d, frames %d, sample_rate %d'',
                    ObsLog (log_level gf) ''transcription_filter: setup audio resampler'',
                    ResamplerCreate dst src,
                    ObsLog (log_level gf)
                      ''transcription_filter: setup mutexes and condition variables''] w;
          gf = gf\<lparr>resampler := resampler_of w dst src,
                  whisper_buf_mutex := Some Mutex,
                  whisper_ctx_mutex := Some Mutex,
                  wshiper_thread_cv := Some ConditionVariable,
                  text_source_mutex := Some Mutex,
                  text_source := None,
                  text_source_name := Some (obs_data_get_string settings ''subtitle_sources'')\<rparr>
      in if zeroed_string_assign w [] then Inr (w, gf\<lparr>output_file_path := []\<rparr>)
         else Inl UndefinedBehaviour)"

text \<open>
  The whole constructor. The result is the pointer handed back to the host: \<open>None\<close> is
  \<^verbatim>\<open>nullptr\<close>, and then no filter state is attached to the stream.
\<close>

definition transcription_filter_create ::
  "world \<Rightarrow> obs_data \<Rightarrow> obs_source option \<Rightarrow>
     crash + world \<times> transcription_filter_data option" where
  "transcription_filter_create w settings source =
     (case create_buffers w settings source of
        Inl c \<Rightarrow> Inl c
      | Inr gf0 \<Rightarrow>
          (let (w1, gf1) = load_whisper_context w gf0 in
           if whisper_context gf1 = None then
             Inr (obs_log LOG_ERROR ''Failed to load whisper model'' w1, None)
           else
             (case create_sync w1 settings gf1 of
                Inl c \<Rightarrow> Inl c
              | Inr (w2, gf2) \<Rightarrow>
                  (case transcription_filter_update
                          (obs_log (log_level gf2) ''transcription_filter: run update'' w2)
                          gf2 settings of
                     Inl c \<Rightarrow> Inl c
                   | Inr (w3, gf3) \<Rightarrow>
                       (case start_whisper_thread
                               (obs_log (log_level gf3)
                                  ''transcription_filter: start whisper thread'' w3)
                               gf3 of
                          Inl c \<Rightarrow> Inl c
                        | Inr (w4, gf4) \<Rightarrow>
                            Inr (obs_log (log_level gf4)
                                   ''transcription_filter: filter created.'' w4,
                                 Some (gf4\<lparr>active := True\<rparr>)))))))"

definition transcription_filter_activate ::
  "world \<Rightarrow> transcription_filter_data \<Rightarrow> world \<times> transcription_filter_data" where
  "transcription_filter_activate w gf =
     (obs_log (log_level gf) ''transcription_filter filter activated'' w, gf\<lparr>active := True\<rparr>)"

definition transcription_filter_deactivate ::
  "world \<Rightarrow> transcription_filter_data \<Rightarrow> world \<times> transcription_filter_data" where
  "transcription_filter_deactivate w gf =
     (obs_log (log_level gf) ''transcription_filter filter deactivated'' w,
      gf\<lparr>active := False\<rparr>)"

subsection \<open>\<^verbatim>\<open>transcription_filter_destroy\<close>\<close>

text \<open>
  Lines 110 to 117. The engine lock is taken without a test of the pointer, and so is the
  condition variable when there is an engine to free.
\<close>

definition destroy_whisper_context ::
  "world \<Rightarrow> transcription_filter_data \<Rightarrow> crash + world \<times> transcription_filter_data" where
  "destroy_whisper_context w gf =
     (case whisper_ctx_mutex gf of
        None \<Rightarrow> Inl NullDereference
      | Some _ \<Rightarrow>
          (case whisper_context gf of
             None \<Rightarrow>
               Inr (emit [MutexLock whisper_ctx_lock, MutexUnlock whisper_ctx_lock] w, gf)
           | Some ctx \<Rightarrow>
               (case wshiper_thread_cv gf of
                  None \<Rightarrow> Inl NullDereference
                | Some _ \<Rightarrow>
                    Inr (emit [MutexLock whisper_ctx_lock, WhisperFree ctx, ContextStore None,
                               NotifyAll, MutexUnlock whisper_ctx_lock] w,
                         gf\<lparr>whisper_context := None\<rparr>))))"

text \<open>Lines 124 to 136: the sink name, the weak reference and the resampler.\<close>

definition destroy_sinks :: "transcription_filter_data \<Rightarrow> event list" where
  "destroy_sinks gf =
     (case text_source_name gf of Some _ \<Rightarrow> [Release text_source_name_mem] | None \<Rightarrow> []) @
     (case text_source gf of Some weak \<Rightarrow> [WeakSourceRelease weak] | None \<Rightarrow> []) @
     (case resampler gf of Some r \<Rightarrow> [ResamplerDestroy r] | None \<Rightarrow> [])"

text \<open>
  Lines 138 to 153: the copy buffers and the ring buffers under the buffer lock (taken
  without a test of the pointer), the metadata queue, the synchronisation objects and the
  struct. \<^verbatim>\<open>bfree\<close> and \<^verbatim>\<open>delete\<close> of a null pointer do nothing.
\<close>

definition release_if :: "'a option \<Rightarrow> resource \<Rightarrow> event list" where
  "release_if p r = (case p of Some _ \<Rightarrow> [Release r] | None \<Rightarrow> [])"

definition destroy_buffers :: "transcription_filter_data \<Rightarrow> crash + event list" where
  "destroy_buffers gf =
     (case whisper_buf_mutex gf of
        None \<Rightarrow> Inl NullDereference
      | Some _ \<Rightarrow>
          Inr ([MutexLock whisper_buf_lock] @
               release_if (copy_buffers gf) copy_buffers_mem @
               map (\<lambda>i. Release (input_buffer_mem i)) [0..<channels gf] @
               [MutexUnlock whisper_buf_lock, Release info_buffer_mem] @
               release_if (whisper_buf_mutex gf) whisper_buf_mutex_mem @
               release_if (whisper_ctx_mutex gf) whisper_ctx_mutex_mem @
               release_if (wshiper_thread_cv gf) wshiper_thread_cv_mem @
               release_if (text_source_mutex gf) text_source_mutex_mem @
               [Release filter_data_mem]))"

text \<open>The whole destructor. The struct is freed, so only the world comes back.\<close>

definition transcription_filter_destroy ::
  "world \<Rightarrow> transcription_filter_data \<Rightarrow> crash + world" where
  "transcription_filter_destroy w gf =
     (case destroy_whisper_context
             (obs_log (log_level gf) ''transcription_filter_destroy'' w) gf of
        Inl c \<Rightarrow> Inl c
      | Inr (w1, gf1) \<Rightarrow>
          let (w2, gf2) = join_whisper_thread w1 gf1 in
          (case destroy_buffers gf2 of
             Inl c \<Rightarrow> Inl c
           | Inr es \<Rightarrow> Inr (emit (destroy_sinks gf2 @ es) w2)))"

subsection \<open>Vocabulary for the properties\<close>

text \<open>A packet is well formed for \<open>n\<close> channels when each of its first \<open>n\<close> planes
  holds the samples of all its frames.\<close>

definition wf_packet :: "nat \<Rightarrow> obs_audio_data \<Rightarrow> bool" where
  "wf_packet n a \<longleftrightarrow>
     n \<le> length (a_data a) \<and>
     list_all (\<lambda>c. unat (a_frames a) * sizeof_float \<le> length (a_data a ! c)) [0..<n]"

text \<open>
  What the constructor establishes when it runs through, and every operation keeps: the
  four synchronisation objects exist, an engine handle never goes without a joinable worker thread, the filter
  has a ring buffer for each of its channels, and the copy buffers are allocated.
\<close>

definition filter_invariant :: "transcription_filter_data \<Rightarrow> bool" where
  "filter_invariant gf \<longleftrightarrow>
     whisper_buf_mutex gf \<noteq> None \<and> whisper_ctx_mutex gf \<noteq> None \<and>
     wshiper_thread_cv gf \<noteq> None \<and> text_source_mutex gf \<noteq> None \<and>
     (whisper_context gf = None \<or> whisper_thread gf \<noteq> None) \<and>
     channels gf \<le> length (input_buffers gf) \<and> copy_buffers gf \<noteq> None"

text \<open>Events that free, store or create an engine handle, or join or start a worker.\<close>

fun engine_event :: "event \<Rightarrow> bool" where
  "engine_event (WhisperFree _) = True"
| "engine_event (ContextStore _) = True"
| "engine_event NotifyAll = True"
| "engine_event (ThreadJoin _) = True"
| "engine_event (ThreadStart _) = True"
| "engine_event (InitWhisperContext _ _) = True"
| "engine_event _ = False"

fun release_event :: "event \<Rightarrow> bool" where
  "release_event (Release _) = True"
| "release_event _ = False"

fun error_event :: "event \<Rightarrow> bool" where
  "error_event (ObsLog level _) = (level = LOG_ERROR)"
| "error_event _ = False"

fun lookup_event :: "event \<Rightarrow> bool" where
  "lookup_event (GetSourceByName _ _) = True"
| "lookup_event (WeakGetSource _ _) = True"
| "lookup_event _ = False"

fun sink_write_event :: "event \<Rightarrow> bool" where
  "sink_write_event (SourceUpdateText _ _) = True"
| "sink_write_event (FileWrite _ _) = True"
| "sink_write_event _ = False"

text \<open>The critical section that gives up the engine handle \<open>ctx\<close>.\<close>

definition null_and_notify :: "whisper_context \<Rightarrow> event list" where
  "null_and_notify ctx =
     [MutexLock whisper_ctx_lock, WhisperFree ctx, ContextStore None, NotifyAll,
      MutexUnlock whisper_ctx_lock]"

text \<open>What destruction has to give back once the worker is gone.\<close>

definition worker_resources :: "transcription_filter_data \<Rightarrow> resource list" where
  "worker_resources gf =
     copy_buffers_mem # map input_buffer_mem [0..<channels gf] @
     [info_buffer_mem, whisper_buf_mutex_mem, whisper_ctx_mutex_mem, wshiper_thread_cv_mem,
      text_source_mutex_mem]"

subsection \<open>A concrete host and filter\<close>

definition example_world :: world where
  "example_world =
     \<lparr>history = [], audio_channels = 2, audio_sample_rate = 48000,
      model_present = (\<lambda>p. p = ''models/ggml-tiny.en.bin'' \<or> p = ''models/ggml-tiny.bin''
                              \<or> p = ''models/broken.bin''),
      whisper_load = (\<lambda>p. if p = ''models/ggml-tiny.en.bin'' then Some (WhisperContext 0)
                           else if p = ''models/ggml-tiny.bin'' then Some (WhisperContext 1)
                           else None),
      threads_started = 1,
      resampler_of = (\<lambda>dst src. Some (Resampler 0)),
      streaming_output = None,
      source_by_name = (\<lambda>n. if n = ''Subtitles'' then Some (Source 1) else None),
      weak_of = (\<lambda>s. if s = Source 1 then Some (WeakSource 1) else None),
      weak_target = (\<lambda>k. if k = WeakSource 1 then Some (Source 1) else None),
      source_text = (\<lambda>s. []),
      files = (\<lambda>p. None),
      openable = (\<lambda>p. True),
      zeroed_string_assign = (\<lambda>v. True),
      float_cast = (\<lambda>d. Float32 0),
      BUFFER_SIZE_MSEC = 1010, OVERLAP_SIZE_MSEC = 340, WHISPER_SAMPLE_RATE = 16000,
      msec_to_frames = (\<lambda>rate ms. rate * ms div 1000)\<rparr>"

definition example_settings :: obs_data where
  "example_settings =
     transcription_filter_defaults \<lparr>user_items = (\<lambda>n. None), default_items = (\<lambda>n. None)\<rparr>"

definition example_filter :: transcription_filter_data where
  "example_filter =
     zero_filter_data
       \<lparr>channels := 2, sample_rate := 48000, frames := 48480, overlap_frames := 16320,
        overlap_ms := 340, active := True, log_level := 400,
        copy_buffers := Some 96960, resampler := Some (Resampler 0),
        whisper_model_path := ''models/ggml-tiny.en.bin'',
        whisper_context := Some (WhisperContext 0), whisper_thread := Some (Thread 0),
        whisper_buf_mutex := Some Mutex, whisper_ctx_mutex := Some Mutex,
        wshiper_thread_cv := Some ConditionVariable, text_source_mutex := Some Mutex\<rparr>"

definition example_packet :: obs_audio_data where
  "example_packet =
     \<lparr>a_data = [[1, 2, 3, 4, 5, 6, 7, 8], [9, 10, 11, 12, 13, 14, 15, 16]],
      a_frames = 2, a_timestamp = 1000\<rparr>"



text \<open>
  The move assignment of libstdc++ into a zeroed \<^verbatim>\<open>std::string\<close>: a value longer than
  the 15 bytes of the local buffer hands over its heap pointer; a shorter one, the empty
  string included, is copied to the data pointer of the target, which is null.
\<close>

definition libstdcxx_assign :: "string \<Rightarrow> bool" where
  "libstdcxx_assign v \<longleftrightarrow> 15 < length v"


text \<open>The events of the caption step of a publish (lines 181 to 187).\<close>

definition caption_events :: "transcription_filter_data \<Rightarrow> string \<Rightarrow> world \<Rightarrow> event list" where
  "caption_events gf str w =
     (if caption_to_stream gf
      then (case streaming_output w of
              Some out \<Rightarrow> [OutputCaption out str, OutputRelease out]
            | None \<Rightarrow> [])
      else [])"

fun by_name_event :: "event \<Rightarrow> bool" where
  "by_name_event (GetSourceByName _ _) = True"
| "by_name_event _ = False"

text \<open>A filter whose text element \<open>''Subtitles''\<close> is configured but not yet resolved, and
  one that holds a weak reference to an element that is gone.\<close>

definition unresolved_filter :: transcription_filter_data where
  "unresolved_filter = example_filter\<lparr>text_source_name := Some ''Missing''\<rparr>"

definition stale_filter :: transcription_filter_data where
  "stale_filter =
     example_filter\<lparr>text_source_name := Some ''Subtitles'', text_source := Some (WeakSource 7)\<rparr>"

text \<open>Two filter states with the same engine, worker, locks and buffers.\<close>

definition engine_unchanged ::
  "transcription_filter_data \<Rightarrow> transcription_filter_data \<Rightarrow> bool" where
  "engine_unchanged gf gf' \<longleftrightarrow>
     whisper_context gf' = whisper_context gf \<and> whisper_thread gf' = whisper_thread gf \<and>
     whisper_model_path gf' = whisper_model_path gf \<and>
     whisper_buf_mutex gf' = whisper_buf_mutex gf \<and>
     whisper_ctx_mutex gf' = whisper_ctx_mutex gf \<and>
     wshiper_thread_cv gf' = wshiper_thread_cv gf \<and>
     text_source_mutex gf' = text_source_mutex gf \<and>
     channels gf' = channels gf \<and> input_buffers gf' = input_buffers gf \<and>
     info_buffer gf' = info_buffer gf \<and> active gf' = active gf \<and>
     copy_buffers gf' = copy_buffers gf"

text \<open>Settings that ask for another model than the one \<open>example_filter\<close> holds: one
  that loads, one whose file is present but does not load, one that is not present.\<close>

definition settings_for :: "string \<Rightarrow> obs_data" where
  "settings_for path =
     example_settings\<lparr>user_items := (\<lambda>n. if n = ''whisper_model_path''
                                            then Some (OString path) else None)\<rparr>"

text \<open>The events of the three steps of a model swap, as lines 299 to 334 issue them.\<close>

definition release_events :: "transcription_filter_data \<Rightarrow> event list" where
  "release_events gf =
     (case whisper_context gf of Some ctx \<Rightarrow> null_and_notify ctx | None \<Rightarrow> [])"

definition join_events :: "transcription_filter_data \<Rightarrow> event list" where
  "join_events gf = (case whisper_thread gf of Some t \<Rightarrow> [ThreadJoin t] | None \<Rightarrow> [])"

definition load_events :: "world \<Rightarrow> string \<Rightarrow> event list" where
  "load_events w path =
     (case whisper_load w path of
        Some ctx \<Rightarrow> [InitWhisperContext path (Some ctx), ContextStore (Some ctx)]
      | None \<Rightarrow> [InitWhisperContext path None,
                  ObsLog LOG_ERROR ''Failed to load whisper model'', ContextStore None])"

section \<open>Properties\<close>

subsection \<open>The world\<close>

lemma emit_emit: "emit es' (emit es w) = emit (es @ es') w"
  by (simp add: emit_def)

lemma emit_Nil: "emit [] w = w"
  by (simp add: emit_def)

lemma history_emit [simp]: "history (emit es w) = history w @ es"
  by (simp add: emit_def)

lemma emit_fields [simp]:
  "files (emit es w) = files w"
  "source_text (emit es w) = source_text w"
  "source_by_name (emit es w) = source_by_name w"
  "weak_of (emit es w) = weak_of w"
  "weak_target (emit es w) = weak_target w"
  "streaming_output (emit es w) = streaming_output w"
  "model_present (emit es w) = model_present w"
  "whisper_load (emit es w) = whisper_load w"
  "threads_started (emit es w) = threads_started w"
  "openable (emit es w) = openable w"
  "zeroed_string_assign (emit es w) = zeroed_string_assign w"
  "BUFFER_SIZE_MSEC (emit es w) = BUFFER_SIZE_MSEC w"
  by (simp_all add: emit_def)

subsection \<open>Ingest\<close>

lemma length_fold_push_channel:
  "length (fold (push_channel a) cs bufs) = length bufs"
  by (induction cs arbitrary: bufs) (simp_all add: push_channel_def)

lemma fold_push_channel_nth:
  "n \<le> length bufs \<Longrightarrow> c < length bufs \<Longrightarrow>
   fold (push_channel a) [0..<n] bufs ! c =
     (if c < n
      then circlebuf_push_back (bufs ! c) (a_data a ! c) (unat (a_frames a) * sizeof_float)
      else bufs ! c)"
proof (induction n arbitrary: c)
  case 0
  then show ?case by simp
next
  case (Suc n)
  have at_n: "fold (push_channel a) [0..<n] bufs ! n = bufs ! n"
    using Suc.prems by (simp add: Suc.IH)
  have "push_channel a n xs ! c =
        (if c = n then circlebuf_push_back (xs ! n) (a_data a ! n) (unat (a_frames a) * sizeof_float)
         else xs ! c)" if "length xs = length bufs" for xs
    using that Suc.prems by (simp add: push_channel_def nth_list_update)
  with Suc at_n show ?case
    by (simp add: length_fold_push_channel less_Suc_eq)
qed

lemma push_audio_size:
  assumes "channels gf \<le> length (input_buffers gf)" "wf_packet (channels gf) a" "c < channels gf"
  shows "circlebuf_size (input_buffers (push_audio gf a) ! c) =
         circlebuf_size (input_buffers gf ! c) + unat (a_frames a) * sizeof_float"
  using assms
  by (simp add: push_audio_def fold_push_channel_nth circlebuf_size_def circlebuf_push_back_def
      wf_packet_def list_all_iff)

lemma push_audio_frame:
  "channels (push_audio gf a) = channels gf"
  "active (push_audio gf a) = active gf"
  "whisper_context (push_audio gf a) = whisper_context gf"
  "whisper_thread (push_audio gf a) = whisper_thread gf"
  "whisper_buf_mutex (push_audio gf a) = whisper_buf_mutex gf"
  "whisper_ctx_mutex (push_audio gf a) = whisper_ctx_mutex gf"
  "wshiper_thread_cv (push_audio gf a) = wshiper_thread_cv gf"
  "text_source_mutex (push_audio gf a) = text_source_mutex gf"
  "copy_buffers (push_audio gf a) = copy_buffers gf"
  "length (input_buffers (push_audio gf a)) = length (input_buffers gf)"
  "length (info_buffer (push_audio gf a)) = Suc (length (info_buffer gf))"
  by (simp_all add: push_audio_def length_fold_push_channel)

lemma push_audio_invariant:
  "filter_invariant gf \<Longrightarrow> filter_invariant (push_audio gf a)"
  by (simp add: filter_invariant_def push_audio_frame)

lemma filter_audio_buffering:
  assumes "active gf" "whisper_context gf \<noteq> None" "filter_invariant gf"
  shows "transcription_filter_filter_audio w (Some gf) (Some a) =
           (emit [MutexLock whisper_buf_lock,
                  ObsLog (log_level gf)
                    ''pushing %lu frames to input buffer. current size: %lu (bytes)'',
                  MutexUnlock whisper_buf_lock] w,
            Some (push_audio gf a), Some a)"
  using assms by (auto simp: transcription_filter_filter_audio_def filter_invariant_def)

lemma filter_audio_pass:
  assumes "\<not> active gf \<or> whisper_context gf = None"
  shows "transcription_filter_filter_audio w (Some gf) (Some a) = (w, Some gf, Some a)"
  using assms by (auto simp: transcription_filter_filter_audio_def)

lemma filter_audio_all_pass:
  assumes "\<not> active gf \<or> whisper_context gf = None"
  shows "filter_audio_all w gf as = (w, gf)"
  using assms by (induction as) (simp_all add: filter_audio_pass)

text \<open>
  C10: the entry point is total over null arguments. A null packet yields a null return,
  and a null filter state yields the packet itself; in both cases nothing else happens:
  the world and the state pointer come back as they were, and no field of either argument
  is read.
\<close>

theorem filter_audio_null_inputs:
  "transcription_filter_filter_audio w data None = (w, data, None) \<and>
   transcription_filter_filter_audio w None (Some a) = (w, None, Some a)"
  by (simp add: transcription_filter_filter_audio_def)

text \<open>
  C3: pass-through. When the filter is inactive or has no engine handle, the entry point
  returns the very packet it was given and changes neither the filter state (ring buffers
  and metadata queue included) nor the world, for one packet and for any run of packets;
  and in every case, the buffering path included, the pointer returned for a packet is
  that packet, unmodified.
\<close>

theorem filter_audio_pass_through:
  "(\<not> active gf \<or> whisper_context gf = None \<longrightarrow>
      transcription_filter_filter_audio w (Some gf) (Some a) = (w, Some gf, Some a) \<and>
      filter_audio_all w gf as = (w, gf)) \<and>
   snd (snd (transcription_filter_filter_audio w data (Some a))) = Some a"
proof -
  have "snd (snd (transcription_filter_filter_audio w data (Some a))) = Some a"
    by (simp add: transcription_filter_filter_audio_def split: option.split)
  then show ?thesis
    by (simp add: filter_audio_pass filter_audio_all_pass)
qed

theorem filter_audio_pass_through_witness:
  "\<not> active (example_filter\<lparr>active := False\<rparr>) \<and>
   transcription_filter_filter_audio example_world (Some (example_filter\<lparr>active := False\<rparr>))
       (Some example_packet) =
     (example_world, Some (example_filter\<lparr>active := False\<rparr>), Some example_packet) \<and>
   filter_audio_all example_world (example_filter\<lparr>active := False\<rparr>)
       [example_packet, example_packet, example_packet] =
     (example_world, example_filter\<lparr>active := False\<rparr>) \<and>
   snd (snd (transcription_filter_filter_audio example_world (Some example_filter)
       (Some example_packet))) = Some example_packet"
  using filter_audio_pass_through [of "example_filter\<lparr>active := False\<rparr>" example_world
      example_packet "[example_packet, example_packet, example_packet]" "Some example_filter"]
    filter_audio_pass_through [of example_filter example_world
      example_packet "[]" "Some example_filter"]
  by simp

text \<open>
  C2: lock-step. While the filter is active and holds an engine handle, a run of well-formed
  packets leaves every channel's ring buffer longer by the sum of the frame counts times
  \<open>sizeof(float)\<close> bytes, and the metadata queue longer by one record per packet (for a
  single packet: exactly \<open>frames * sizeof(float)\<close> bytes per channel and one record).
\<close>

theorem lock_step:
  assumes "active gf" and "whisper_context gf \<noteq> None" and "filter_invariant gf"
    and "list_all (wf_packet (channels gf)) as"
  shows "(\<forall>c<channels gf.
            circlebuf_size (input_buffers (snd (filter_audio_all w gf as)) ! c) =
            circlebuf_size (input_buffers gf ! c) +
              (\<Sum>a\<leftarrow>as. unat (a_frames a)) * sizeof_float) \<and>
         length (info_buffer (snd (filter_audio_all w gf as))) =
           length (info_buffer gf) + length as"
  using assms
proof (induction as arbitrary: w gf)
  case Nil
  then show ?case by simp
next
  case (Cons a as)
  let ?w = "emit [MutexLock whisper_buf_lock,
                  ObsLog (log_level gf)
                    ''pushing %lu frames to input buffer. current size: %lu (bytes)'',
                  MutexUnlock whisper_buf_lock] w"
  have step: "transcription_filter_filter_audio w (Some gf) (Some a) =
                (?w, Some (push_audio gf a), Some a)"
    using Cons.prems(1-3) by (rule filter_audio_buffering)
  have le: "channels gf \<le> length (input_buffers gf)"
    using Cons.prems(3) by (simp add: filter_invariant_def)
  have ih: "(\<forall>c<channels (push_audio gf a).
            circlebuf_size (input_buffers (snd (filter_audio_all ?w (push_audio gf a) as)) ! c) =
            circlebuf_size (input_buffers (push_audio gf a) ! c) +
              (\<Sum>a\<leftarrow>as. unat (a_frames a)) * sizeof_float) \<and>
         length (info_buffer (snd (filter_audio_all ?w (push_audio gf a) as))) =
           length (info_buffer (push_audio gf a)) + length as"
    using Cons.prems by (intro Cons.IH) (simp_all add: push_audio_frame push_audio_invariant)
  show ?case
    using ih le Cons.prems(4)
    by (simp add: step push_audio_frame push_audio_size algebra_simps)
qed

lemma example_filter_invariant: "filter_invariant example_filter"
  by (simp add: filter_invariant_def example_filter_def zero_filter_data_def MAX_AUDIO_CHANNELS_def)

lemma example_packet_wf: "wf_packet 2 example_packet"
  by code_simp

theorem lock_step_witness:
  "active example_filter \<and> whisper_context example_filter \<noteq> None \<and>
   filter_invariant example_filter \<and>
   list_all (wf_packet (channels example_filter)) [example_packet, example_packet] \<and>
   circlebuf_size (input_buffers (snd (filter_audio_all example_world example_filter
              [example_packet, example_packet])) ! 0) = 16 \<and>
   circlebuf_size (input_buffers (snd (filter_audio_all example_world example_filter
              [example_packet, example_packet])) ! 1) = 16 \<and>
   length (info_buffer (snd (filter_audio_all example_world example_filter
              [example_packet, example_packet]))) = 2"
proof -
  have a: "active example_filter" and c: "whisper_context example_filter \<noteq> None"
    and n: "channels example_filter = 2" and i: "info_buffer example_filter = []"
    and b: "input_buffers example_filter = replicate 8 []"
    by (simp_all add: example_filter_def zero_filter_data_def MAX_AUDIO_CHANNELS_def)
  have p: "list_all (wf_packet (channels example_filter)) [example_packet, example_packet]"
    by (simp add: n example_packet_wf)
  have f: "unat (a_frames example_packet) = 2"
    by (simp add: example_packet_def)
  show ?thesis
    using lock_step [OF a c example_filter_invariant p, of example_world] a c p
      example_filter_invariant
    by (simp add: n i b f sizeof_float_def circlebuf_size_def)
qed


subsection \<open>Defaults\<close>

lemma default_items_set_default:
  "default_items (obs_data_set_default name v s) n =
     (if n = name then Some v else default_items s n)"
  by (simp add: obs_data_set_default_def)

lemma user_items_set_default:
  "user_items (obs_data_set_default name v s) = user_items s"
  by (simp add: obs_data_set_default_def)

lemma defaults_sampling:
  "default_items (transcription_filter_defaults s) ''whisper_sampling_method'' =
      Some (OInt WHISPER_SAMPLING_BEAM_SEARCH)"
  by (simp add: transcription_filter_defaults_def default_items_set_default)

lemma defaults_n_threads:
  "default_items (transcription_filter_defaults s) ''n_threads'' = Some (OInt 4)"
  by (simp add: transcription_filter_defaults_def default_items_set_default)

lemma defaults_no_context:
  "default_items (transcription_filter_defaults s) ''no_context'' = Some (OBool True)"
  by (simp add: transcription_filter_defaults_def default_items_set_default)

lemma defaults_user_items:
  "user_items (transcription_filter_defaults s) = user_items s"
  by (simp add: transcription_filter_defaults_def user_items_set_default)


lemma fold_default_changed:
  "default_items (fold (\<lambda>(name, v). obs_data_set_default name v) kvs s) n \<noteq> default_items s n
   \<Longrightarrow> n \<in> fst ` set kvs"
proof (induction kvs arbitrary: s)
  case Nil
  then show ?case by simp
next
  case (Cons kv kvs)
  obtain k v where kv: "kv = (k, v)" by (cases kv)
  show ?case
  proof (cases "n = k")
    case True
    then show ?thesis by (simp add: kv)
  next
    case False
    with Cons.prems have
      "default_items (fold (\<lambda>(name, v). obs_data_set_default name v) kvs
          (obs_data_set_default k v s)) n \<noteq> default_items (obs_data_set_default k v s) n"
      by (simp add: kv default_items_set_default)
    then have "n \<in> fst ` set kvs" by (rule Cons.IH)
    then show ?thesis by simp
  qed
qed

lemma defaults_names:
  "default_items (transcription_filter_defaults s) n \<noteq> default_items s n \<Longrightarrow>
   n \<in> set [''vad_enabled'', ''log_level'', ''log_words'', ''caption_to_stream'',
          ''whisper_model_path'', ''whisper_language_select'', ''subtitle_sources'',
          ''whisper_sampling_method'', ''initial_prompt'', ''n_threads'', ''n_max_text_ctx'',
          ''translate'', ''no_context'', ''single_segment'', ''print_special'',
          ''print_progress'', ''print_realtime'', ''print_timestamps'', ''token_timestamps'',
          ''thold_pt'', ''thold_ptsum'', ''max_len'', ''split_on_word'', ''max_tokens'',
          ''speed_up'', ''suppress_blank'', ''suppress_non_speech_tokens'', ''temperature'',
          ''max_initial_ts'', ''length_penalty'']"
  unfolding transcription_filter_defaults_def
  by (drule fold_default_changed) simp

text \<open>
  C9: the defaults. On settings without user values the sampling method reads as beam
  search, the number of inference threads as 4, and \<open>no_context\<close> as true (no text is
  carried over from one window to the next); these are the defaults the operation stores,
  it touches no user value, and the only defaults it changes are those of its thirty
  named options.
\<close>

theorem defaults_values:
  "obs_data_get_int (transcription_filter_defaults (s\<lparr>user_items := (\<lambda>n. None)\<rparr>))
      ''whisper_sampling_method'' = WHISPER_SAMPLING_BEAM_SEARCH \<and>
   obs_data_get_int (transcription_filter_defaults (s\<lparr>user_items := (\<lambda>n. None)\<rparr>))
      ''n_threads'' = 4 \<and>
   obs_data_get_bool (transcription_filter_defaults (s\<lparr>user_items := (\<lambda>n. None)\<rparr>))
      ''no_context'' = True \<and>
   default_items (transcription_filter_defaults s) ''whisper_sampling_method'' =
      Some (OInt WHISPER_SAMPLING_BEAM_SEARCH) \<and>
   default_items (transcription_filter_defaults s) ''n_threads'' = Some (OInt 4) \<and>
   default_items (transcription_filter_defaults s) ''no_context'' = Some (OBool True) \<and>
   user_items (transcription_filter_defaults s) = user_items s \<and>
   {n. default_items (transcription_filter_defaults s) n \<noteq> default_items s n} \<subseteq>
     set [''vad_enabled'', ''log_level'', ''log_words'', ''caption_to_stream'',
          ''whisper_model_path'', ''whisper_language_select'', ''subtitle_sources'',
          ''whisper_sampling_method'', ''initial_prompt'', ''n_threads'', ''n_max_text_ctx'',
          ''translate'', ''no_context'', ''single_segment'', ''print_special'',
          ''print_progress'', ''print_realtime'', ''print_timestamps'', ''token_timestamps'',
          ''thold_pt'', ''thold_ptsum'', ''max_len'', ''split_on_word'', ''max_tokens'',
          ''speed_up'', ''suppress_blank'', ''suppress_non_speech_tokens'', ''temperature'',
          ''max_initial_ts'', ''length_penalty'']"
proof -
  have "obs_data_get_int (transcription_filter_defaults (s\<lparr>user_items := (\<lambda>n. None)\<rparr>))
      ''whisper_sampling_method'' = WHISPER_SAMPLING_BEAM_SEARCH"
    by (simp add: obs_data_get_int_def obs_data_item_def defaults_user_items defaults_sampling)
  moreover have "obs_data_get_int (transcription_filter_defaults (s\<lparr>user_items := (\<lambda>n. None)\<rparr>))
      ''n_threads'' = 4"
    by (simp add: obs_data_get_int_def obs_data_item_def defaults_user_items defaults_n_threads)
  moreover have "obs_data_get_bool (transcription_filter_defaults (s\<lparr>user_items := (\<lambda>n. None)\<rparr>))
      ''no_context'' = True"
    by (simp add: obs_data_get_bool_def obs_data_item_def defaults_user_items defaults_no_context)
  moreover have "{n. default_items (transcription_filter_defaults s) n \<noteq> default_items s n} \<subseteq>
     set [''vad_enabled'', ''log_level'', ''log_words'', ''caption_to_stream'',
          ''whisper_model_path'', ''whisper_language_select'', ''subtitle_sources'',
          ''whisper_sampling_method'', ''initial_prompt'', ''n_threads'', ''n_max_text_ctx'',
          ''translate'', ''no_context'', ''single_segment'', ''print_special'',
          ''print_progress'', ''print_realtime'', ''print_timestamps'', ''token_timestamps'',
          ''thold_pt'', ''thold_ptsum'', ''max_len'', ''split_on_word'', ''max_tokens'',
          ''speed_up'', ''suppress_blank'', ''suppress_non_speech_tokens'', ''temperature'',
          ''max_initial_ts'', ''length_penalty'']"
    using defaults_names [of s] by blast
  ultimately show ?thesis
    using defaults_sampling [of s] defaults_n_threads [of s] defaults_no_context [of s]
      defaults_user_items [of s]
    by blast
qed

subsection \<open>Output routing\<close>

lemma caption_stream_fields [simp]:
  "files (caption_stream gf str w) = files w"
  "source_text (caption_stream gf str w) = source_text w"
  "source_by_name (caption_stream gf str w) = source_by_name w"
  "weak_of (caption_stream gf str w) = weak_of w"
  "weak_target (caption_stream gf str w) = weak_target w"
  "openable (caption_stream gf str w) = openable w"
  by (simp_all add: caption_stream_def split: option.split)

lemma caption_stream_emit: "caption_stream gf str w = emit (caption_events gf str w) w"
  by (simp add: caption_stream_def caption_events_def emit_Nil split: option.split)

lemma caption_events_quiet:
  "\<not> list_ex error_event (caption_events gf str w) \<and>
   \<not> list_ex lookup_event (caption_events gf str w) \<and>
   \<not> list_ex sink_write_event (caption_events gf str w) \<and>
   \<not> list_ex by_name_event (caption_events gf str w) \<and>
   filter lookup_event (caption_events gf str w) = []"
  unfolding caption_events_def
  by (cases "streaming_output w"; cases "caption_to_stream gf"; simp)








lemma publish_not_found:
  assumes "text_source_name gf = Some name" "text_source_mutex gf \<noteq> None"
    "text_source gf = None" "source_by_name w name = None"
  shows "set_text_callback w gf str =
     Inr (emit (caption_events gf str w @
                [MutexLock text_source_lock, GetSourceByName name None,
                 ObsLog LOG_ERROR ''text source '%s' not found'', MutexUnlock text_source_lock,
                 MutexLock text_source_lock, ObsLog LOG_ERROR ''text_source is null'',
                 MutexUnlock text_source_lock]) w, gf)"
  using assms
  by (auto simp: set_text_callback_def acquire_weak_text_source_ref_def Let_def
      caption_stream_emit emit_emit obs_log_def emit_fields)

lemma publish_stale:
  assumes "text_source_name gf = Some name" "text_source_mutex gf \<noteq> None"
    "text_source gf = Some weak" "weak_target w weak = None"
  shows "set_text_callback w gf str =
     Inr (emit (caption_events gf str w @
                [MutexLock text_source_lock, WeakGetSource weak None,
                 ObsLog LOG_ERROR ''text_source target is null'',
                 MutexUnlock text_source_lock]) w, gf)"
  using assms
  by (auto simp: set_text_callback_def Let_def caption_stream_emit emit_emit obs_log_def)

lemma publish_unresolved_looks_up:
  assumes "text_source_name gf = Some name" "text_source_mutex gf \<noteq> None"
    "text_source gf = None"
  shows "\<exists>w' gf' es. set_text_callback w gf str = Inr (w', gf') \<and>
           history w' = history w @ es \<and>
           GetSourceByName name (source_by_name w name) \<in> set es"
  using assms
  by (auto simp: set_text_callback_def acquire_weak_text_source_ref_def Let_def
      caption_stream_emit emit_emit obs_log_def emit_def split: option.split)

lemma publish_cached_upgrades:
  assumes "text_source_name gf = Some name" "text_source_mutex gf \<noteq> None"
    "text_source gf = Some weak"
  shows "\<exists>w' gf' es. set_text_callback w gf str = Inr (w', gf') \<and>
           history w' = history w @ es \<and>
           WeakGetSource weak (weak_target w weak) \<in> set es \<and>
           \<not> list_ex by_name_event es"
  using assms caption_events_quiet [of gf str w]
  by (auto simp: set_text_callback_def Let_def
      caption_stream_emit emit_emit obs_log_def emit_def split: option.split)

text \<open>
  C6: the text-element sink. When the named element is not found, or the cached weak
  reference no longer leads to an element, the publish logs an error and is dropped: the
  filter state is unchanged, no text is written to any element or file, and exactly one
  resolution is attempted (no retry within the publish). The next publish, in whatever
  state the host then is, attempts the resolution again: the lookup by name when no
  reference is cached, the upgrade of the cached weak reference (and no lookup by name)
  when one is.
\<close>

theorem text_sink_failure_dropped:
  assumes "text_source_name gf = Some name" and "text_source_mutex gf \<noteq> None"
    and "text_source gf = None \<and> source_by_name w name = None \<or>
         text_source gf = Some weak \<and> weak_target w weak = None"
  shows "\<exists>w' es.
           set_text_callback w gf str = Inr (w', gf) \<and> history w' = history w @ es \<and>
           list_ex error_event es \<and> \<not> list_ex sink_write_event es \<and>
           source_text w' = source_text w \<and> files w' = files w \<and>
           length (filter lookup_event es) = 1 \<and>
           (\<forall>w2 str2. \<exists>w3 gf3 es2.
              set_text_callback w2 gf str2 = Inr (w3, gf3) \<and> history w3 = history w2 @ es2 \<and>
              (text_source gf = None \<longrightarrow>
                 GetSourceByName name (source_by_name w2 name) \<in> set es2) \<and>
              (text_source gf = Some weak \<longrightarrow>
                 WeakGetSource weak (weak_target w2 weak) \<in> set es2 \<and>
                 \<not> list_ex by_name_event es2))"
proof -
  have next_publish: "\<exists>w3 gf3 es2.
      set_text_callback w2 gf str2 = Inr (w3, gf3) \<and> history w3 = history w2 @ es2 \<and>
      (text_source gf = None \<longrightarrow> GetSourceByName name (source_by_name w2 name) \<in> set es2) \<and>
      (text_source gf = Some weak \<longrightarrow>
         WeakGetSource weak (weak_target w2 weak) \<in> set es2 \<and> \<not> list_ex by_name_event es2)"
    for w2 str2
  proof (cases "text_source gf")
    case None
    with publish_unresolved_looks_up [OF assms(1,2) None, of w2 str2] show ?thesis by auto
  next
    case (Some k)
    with assms(3) have k: "text_source gf = Some weak" by auto
    with publish_cached_upgrades [OF assms(1,2) k, of w2 str2] show ?thesis by auto
  qed
  from assms(3) show ?thesis
  proof
    assume a: "text_source gf = None \<and> source_by_name w name = None"
    let ?es = "caption_events gf str w @
                [MutexLock text_source_lock, GetSourceByName name None,
                 ObsLog LOG_ERROR ''text source '%s' not found'', MutexUnlock text_source_lock,
                 MutexLock text_source_lock, ObsLog LOG_ERROR ''text_source is null'',
                 MutexUnlock text_source_lock]"
    have "set_text_callback w gf str = Inr (emit ?es w, gf)"
      using publish_not_found [OF assms(1,2)] a by blast
    moreover have "list_ex error_event ?es" "\<not> list_ex sink_write_event ?es"
      "length (filter lookup_event ?es) = 1"
      using caption_events_quiet [of gf str w] by simp_all
    ultimately show ?thesis
      using next_publish
      by (intro exI [of _ "emit ?es w"] exI [of _ ?es]) simp
  next
    assume b: "text_source gf = Some weak \<and> weak_target w weak = None"
    let ?es = "caption_events gf str w @
                [MutexLock text_source_lock, WeakGetSource weak None,
                 ObsLog LOG_ERROR ''text_source target is null'',
                 MutexUnlock text_source_lock]"
    have "set_text_callback w gf str = Inr (emit ?es w, gf)"
      using publish_stale [OF assms(1,2)] b by blast
    moreover have "list_ex error_event ?es" "\<not> list_ex sink_write_event ?es"
      "length (filter lookup_event ?es) = 1"
      using caption_events_quiet [of gf str w] by simp_all
    ultimately show ?thesis
      using next_publish
      by (intro exI [of _ "emit ?es w"] exI [of _ ?es]) simp
  qed
qed

lemma unresolved_filter_fields:
  "text_source_name unresolved_filter = Some ''Missing''"
  "text_source_mutex unresolved_filter \<noteq> None"
  "text_source unresolved_filter = None"
  by (simp_all add: unresolved_filter_def example_filter_def zero_filter_data_def)

lemma stale_filter_fields:
  "text_source_name stale_filter = Some ''Subtitles''"
  "text_source_mutex stale_filter \<noteq> None"
  "text_source stale_filter = Some (WeakSource 7)"
  by (simp_all add: stale_filter_def example_filter_def zero_filter_data_def)

lemma example_world_sources:
  "source_by_name example_world ''Missing'' = None"
  "weak_target example_world (WeakSource 7) = None"
  "history example_world = []"
  by (simp_all add: example_world_def)

theorem text_sink_failure_dropped_witness:
  "text_source_name unresolved_filter = Some ''Missing'' \<and>
   text_source_mutex unresolved_filter \<noteq> None \<and>
   text_source unresolved_filter = None \<and>
   source_by_name example_world ''Missing'' = None \<and>
   (\<exists>w' w3 gf3 es2.
      set_text_callback example_world unresolved_filter ''hello'' = Inr (w', unresolved_filter) \<and>
      list_ex error_event (history w') \<and> \<not> list_ex sink_write_event (history w') \<and>
      set_text_callback w' unresolved_filter ''again'' = Inr (w3, gf3) \<and>
      history w3 = history w' @ es2 \<and>
      GetSourceByName ''Missing'' (source_by_name w' ''Missing'') \<in> set es2) \<and>
   text_source_name stale_filter = Some ''Subtitles'' \<and>
   text_source_mutex stale_filter \<noteq> None \<and>
   text_source stale_filter = Some (WeakSource 7) \<and>
   weak_target example_world (WeakSource 7) = None \<and>
   (\<exists>w' w3 gf3 es2.
      set_text_callback example_world stale_filter ''hello'' = Inr (w', stale_filter) \<and>
      list_ex error_event (history w') \<and> \<not> list_ex sink_write_event (history w') \<and>
      set_text_callback w' stale_filter ''again'' = Inr (w3, gf3) \<and>
      history w3 = history w' @ es2 \<and>
      WeakGetSource (WeakSource 7) (weak_target w' (WeakSource 7)) \<in> set es2 \<and>
      \<not> list_ex by_name_event es2)"
proof -
  have d: "text_source unresolved_filter = None \<and> source_by_name example_world ''Missing'' = None \<or>
      text_source unresolved_filter = Some (WeakSource 0) \<and>
      weak_target example_world (WeakSource 0) = None"
    by (simp add: unresolved_filter_fields example_world_sources)
  from text_sink_failure_dropped [OF unresolved_filter_fields(1,2) d, of "''hello''"]
  obtain w' es where 1:
    "set_text_callback example_world unresolved_filter ''hello'' = Inr (w', unresolved_filter)"
    "history w' = history example_world @ es"
    "list_ex error_event es" "\<not> list_ex sink_write_event es"
    and 2: "\<forall>w2 str2. \<exists>w3 gf3 es2.
        set_text_callback w2 unresolved_filter str2 = Inr (w3, gf3) \<and>
        history w3 = history w2 @ es2 \<and>
        (text_source unresolved_filter = None \<longrightarrow>
           GetSourceByName ''Missing'' (source_by_name w2 ''Missing'') \<in> set es2) \<and>
        (text_source unresolved_filter = Some (WeakSource 0) \<longrightarrow>
           WeakGetSource (WeakSource 0) (weak_target w2 (WeakSource 0)) \<in> set es2 \<and>
           \<not> list_ex by_name_event es2)"
    by blast
  from 2 obtain w3 gf3 es2 where 3:
    "set_text_callback w' unresolved_filter ''again'' = Inr (w3, gf3)"
    "history w3 = history w' @ es2"
    "GetSourceByName ''Missing'' (source_by_name w' ''Missing'') \<in> set es2"
    using unresolved_filter_fields(3) by blast
  from 1 have "list_ex error_event (history w')" "\<not> list_ex sink_write_event (history w')"
    by (simp_all add: example_world_sources)
  with 1 3 have a: "\<exists>w' w3 gf3 es2.
      set_text_callback example_world unresolved_filter ''hello'' = Inr (w', unresolved_filter) \<and>
      list_ex error_event (history w') \<and> \<not> list_ex sink_write_event (history w') \<and>
      set_text_callback w' unresolved_filter ''again'' = Inr (w3, gf3) \<and>
      history w3 = history w' @ es2 \<and>
      GetSourceByName ''Missing'' (source_by_name w' ''Missing'') \<in> set es2"
    by blast
  have d': "text_source stale_filter = None \<and> source_by_name example_world ''Subtitles'' = None \<or>
      text_source stale_filter = Some (WeakSource 7) \<and>
      weak_target example_world (WeakSource 7) = None"
    by (simp add: stale_filter_fields example_world_sources)
  from text_sink_failure_dropped [OF stale_filter_fields(1,2) d', of "''hello''"]
  obtain v' fs where 4:
    "set_text_callback example_world stale_filter ''hello'' = Inr (v', stale_filter)"
    "history v' = history example_world @ fs"
    "list_ex error_event fs" "\<not> list_ex sink_write_event fs"
    and 5: "\<forall>w2 str2. \<exists>w3 gf3 es2.
        set_text_callback w2 stale_filter str2 = Inr (w3, gf3) \<and>
        history w3 = history w2 @ es2 \<and>
        (text_source stale_filter = None \<longrightarrow>
           GetSourceByName ''Subtitles'' (source_by_name w2 ''Subtitles'') \<in> set es2) \<and>
        (text_source stale_filter = Some (WeakSource 7) \<longrightarrow>
           WeakGetSource (WeakSource 7) (weak_target w2 (WeakSource 7)) \<in> set es2 \<and>
           \<not> list_ex by_name_event es2)"
    by blast
  from 5 obtain v3 hf3 fs2 where 6:
    "set_text_callback v' stale_filter ''again'' = Inr (v3, hf3)"
    "history v3 = history v' @ fs2"
    "WeakGetSource (WeakSource 7) (weak_target v' (WeakSource 7)) \<in> set fs2"
    "\<not> list_ex by_name_event fs2"
    using stale_filter_fields(3) by blast
  from 4 have "list_ex error_event (history v')" "\<not> list_ex sink_write_event (history v')"
    by (simp_all add: example_world_sources)
  with 4 6 have b: "\<exists>w' w3 gf3 es2.
      set_text_callback example_world stale_filter ''hello'' = Inr (w', stale_filter) \<and>
      list_ex error_event (history w') \<and> \<not> list_ex sink_write_event (history w') \<and>
      set_text_callback w' stale_filter ''again'' = Inr (w3, gf3) \<and>
      history w3 = history w' @ es2 \<and>
      WeakGetSource (WeakSource 7) (weak_target w' (WeakSource 7)) \<in> set es2 \<and>
      \<not> list_ex by_name_event es2"
    by blast
  show ?thesis
    using a b unresolved_filter_fields stale_filter_fields example_world_sources by simp
qed

subsection \<open>Settings update\<close>

lemma emit_threads_started:
  "emit es (w\<lparr>threads_started := n\<rparr>) = (emit es w)\<lparr>threads_started := n\<rparr>"
  by (simp add: emit_def)

lemma engine_unchanged_refl: "engine_unchanged gf gf"
  by (simp add: engine_unchanged_def)

lemma engine_unchanged_trans:
  "engine_unchanged a b \<Longrightarrow> engine_unchanged b c \<Longrightarrow> engine_unchanged a c"
  by (simp add: engine_unchanged_def)

lemma detach_text_source_cases:
  "(\<exists>es gf1 old. detach_text_source w gf = Next (emit es w, gf1, old) \<and>
       \<not> list_ex engine_event es \<and> engine_unchanged gf gf1 \<and> log_level gf1 = log_level gf \<and>
       text_source_name gf1 = text_source_name gf) \<or>
   (text_source_mutex gf = None \<and>
    detach_text_source w gf =
      Returned (emit [ObsLog LOG_ERROR ''text_source_mutex is null''] w, gf, None))"
proof (cases "text_source gf")
  case None
  then have "detach_text_source w gf = Next (emit [] w, gf, None)"
    by (simp add: detach_text_source_def emit_Nil)
  then show ?thesis
    using engine_unchanged_refl by fastforce
next
  case (Some weak)
  show ?thesis
  proof (cases "text_source_mutex gf")
    case None
    with Some show ?thesis by (simp add: detach_text_source_def obs_log_def)
  next
    case (Some m)
    with \<open>text_source gf = Some weak\<close> have
      "detach_text_source w gf =
         Next (emit [MutexLock text_source_lock, MutexUnlock text_source_lock] w,
               gf\<lparr>text_source := None\<rparr>, Some weak)"
      by (simp add: detach_text_source_def)
    moreover have "engine_unchanged gf (gf\<lparr>text_source := None\<rparr>)"
      by (simp add: engine_unchanged_def)
    ultimately show ?thesis by (intro disjI1 exI conjI) (assumption | simp)+
  qed
qed

lemma free_text_source_name_cases:
  "\<exists>es gf1. free_text_source_name w gf = (emit es w, gf1) \<and> \<not> list_ex engine_event es \<and>
      engine_unchanged gf gf1 \<and> log_level gf1 = log_level gf"
proof (cases "text_source_name gf")
  case None
  then have "free_text_source_name w gf = (emit [] w, gf)"
    by (simp add: free_text_source_name_def emit_Nil)
  then show ?thesis using engine_unchanged_refl by fastforce
next
  case (Some n)
  then have "free_text_source_name w gf =
      (emit [Release text_source_name_mem] w, gf\<lparr>text_source_name := None\<rparr>)"
    by (simp add: free_text_source_name_def)
  moreover have "engine_unchanged gf (gf\<lparr>text_source_name := None\<rparr>)"
    by (simp add: engine_unchanged_def)
  ultimately show ?thesis by (intro exI conjI) (assumption | simp)+
qed

lemma release_old_text_source_cases:
  "\<exists>es. release_old_text_source old w gf = emit es w \<and> \<not> list_ex engine_event es"
proof (cases old)
  case None
  then have "release_old_text_source old w gf = emit [] w"
    by (simp add: release_old_text_source_def emit_Nil)
  then show ?thesis by fastforce
next
  case (Some weak)
  then have "release_old_text_source old w gf =
      emit [ObsLog (log_level gf) ''releasing old text source'', WeakSourceRelease weak] w"
    by (simp add: release_old_text_source_def)
  then show ?thesis by (intro exI conjI) (assumption | simp)+
qed

lemma sink_change:
  assumes f: "\<And>g. engine_unchanged g (f g) \<and> log_level (f g) = log_level g"
  shows "(\<exists>es gf'.
            (case detach_text_source w gf of
               Returned (w1, gf1, old) \<Rightarrow> Returned (w1, gf1)
             | Next (w1, gf1, old) \<Rightarrow>
                 (case free_text_source_name w1 gf1 of
                    (w2, gf2) \<Rightarrow> Next (release_old_text_source old w2 (f gf2), f gf2)))
              = Next (emit es w, gf') \<and>
            \<not> list_ex engine_event es \<and> engine_unchanged gf gf' \<and>
            log_level gf' = log_level gf) \<or>
         (text_source_mutex gf = None \<and>
          (case detach_text_source w gf of
               Returned (w1, gf1, old) \<Rightarrow> Returned (w1, gf1)
             | Next (w1, gf1, old) \<Rightarrow>
                 (case free_text_source_name w1 gf1 of
                    (w2, gf2) \<Rightarrow> Next (release_old_text_source old w2 (f gf2), f gf2)))
            = Returned (emit [ObsLog LOG_ERROR ''text_source_mutex is null''] w, gf))"
proof -
  from detach_text_source_cases [of w gf] show ?thesis
  proof
    assume "\<exists>es gf1 old. detach_text_source w gf = Next (emit es w, gf1, old) \<and>
       \<not> list_ex engine_event es \<and> engine_unchanged gf gf1 \<and> log_level gf1 = log_level gf \<and>
       text_source_name gf1 = text_source_name gf"
    then obtain es1 gf1 old where 1: "detach_text_source w gf = Next (emit es1 w, gf1, old)"
      "\<not> list_ex engine_event es1" "engine_unchanged gf gf1" "log_level gf1 = log_level gf"
      by blast
    obtain es2 gf2 where 2: "free_text_source_name (emit es1 w) gf1 = (emit (es1 @ es2) w, gf2)"
      "\<not> list_ex engine_event es2" "engine_unchanged gf1 gf2" "log_level gf2 = log_level gf1"
      using free_text_source_name_cases [of "emit es1 w" gf1] by (auto simp: emit_emit)
    obtain es3 where 3:
      "release_old_text_source old (emit (es1 @ es2) w) (f gf2) = emit ((es1 @ es2) @ es3) w"
      "\<not> list_ex engine_event es3"
      using release_old_text_source_cases [of old "emit (es1 @ es2) w" "f gf2"]
      by (auto simp: emit_emit simp del: append_assoc)
    have "engine_unchanged gf (f gf2)"
      using 1(3) 2(3) f engine_unchanged_trans by blast
    moreover have "log_level (f gf2) = log_level gf"
      using 1(4) 2(4) f by simp
    moreover have "\<not> list_ex engine_event (es1 @ es2 @ es3)"
      using 1(2) 2(2) 3(2) by simp
    ultimately show ?thesis
      by (intro disjI1 exI [of _ "es1 @ es2 @ es3"] exI [of _ "f gf2"])
        (simp add: 1 2 3)
  next
    assume "text_source_mutex gf = None \<and>
      detach_text_source w gf =
        Returned (emit [ObsLog LOG_ERROR ''text_source_mutex is null''] w, gf, None)"
    then show ?thesis by simp
  qed
qed

lemma update_text_source_cases:
  "(\<exists>es gf'. update_text_source w gf s = Next (emit es w, gf') \<and>
       \<not> list_ex engine_event es \<and> engine_unchanged gf gf' \<and> log_level gf' = log_level gf) \<or>
   (text_source_mutex gf = None \<and>
    update_text_source w gf s =
      Returned (emit [ObsLog LOG_ERROR ''text_source_mutex is null''] w, gf))"
proof -
  let ?n = "obs_data_get_string s ''subtitle_sources''"
  let ?p = "obs_data_get_string s ''subtitle_output_filename''"
  let ?f1 = "\<lambda>g. if ?n = ''text_file'' \<and> 0 < length ?p
                 then g\<lparr>output_file_path := [], output_file_path := ?p\<rparr>
                 else g\<lparr>output_file_path := []\<rparr>"
  let ?f2 = "\<lambda>g. g\<lparr>text_source_name := Some ?n\<rparr>"
  have f1: "engine_unchanged g (?f1 g) \<and> log_level (?f1 g) = log_level g" for g
    by (simp add: engine_unchanged_def)
  have f2: "engine_unchanged g (?f2 g) \<and> log_level (?f2 g) = log_level g" for g
    by (simp add: engine_unchanged_def)
  consider (none) "?n = ''none'' \<or> ?n = ''(null)'' \<or> ?n = ''text_file'' \<or> length ?n = 0"
    | (new) "\<not> (?n = ''none'' \<or> ?n = ''(null)'' \<or> ?n = ''text_file'' \<or> length ?n = 0)"
        "text_source_name gf = None \<or> Some ?n \<noteq> text_source_name gf"
    | (same) "\<not> (?n = ''none'' \<or> ?n = ''(null)'' \<or> ?n = ''text_file'' \<or> length ?n = 0)"
        "\<not> (text_source_name gf = None \<or> Some ?n \<noteq> text_source_name gf)"
    by blast
  then show ?thesis
  proof cases
    case none
    have "update_text_source w gf s =
        (case detach_text_source w gf of
               Returned (w1, gf1, old) \<Rightarrow> Returned (w1, gf1)
             | Next (w1, gf1, old) \<Rightarrow>
                 (case free_text_source_name w1 gf1 of
                    (w2, gf2) \<Rightarrow> Next (release_old_text_source old w2 (?f1 gf2), ?f1 gf2)))"
      using none
      by (auto simp: update_text_source_def Let_def split: flow.split prod.split)
    then show ?thesis using sink_change [of ?f1 w gf, OF f1] by simp
  next
    case new
    have "update_text_source w gf s =
        (case detach_text_source w gf of
               Returned (w1, gf1, old) \<Rightarrow> Returned (w1, gf1)
             | Next (w1, gf1, old) \<Rightarrow>
                 (case free_text_source_name w1 gf1 of
                    (w2, gf2) \<Rightarrow> Next (release_old_text_source old w2 (?f2 gf2), ?f2 gf2)))"
      using new
      by (auto simp: update_text_source_def Let_def split: flow.split prod.split)
    then show ?thesis using sink_change [of ?f2 w gf, OF f2] by simp
  next
    case same
    then have "update_text_source w gf s = Next (emit [] w, gf)"
      by (auto simp: update_text_source_def Let_def emit_Nil)
    then show ?thesis using engine_unchanged_refl by fastforce
  qed
qed

lemma join_events_simps [simp]:
  "join_events (gf\<lparr>whisper_context := c\<rparr>) = join_events gf"
  "join_events (gf\<lparr>whisper_model_path := p\<rparr>) = join_events gf"
  by (simp_all add: join_events_def)

lemma load_events_emit [simp]: "load_events (emit es w) p = load_events w p"
  by (simp add: load_events_def)

lemma load_whisper_context_eq:
  "load_whisper_context w gf =
     (emit (load_events w (whisper_model_path gf)) w,
      gf\<lparr>whisper_context := whisper_load w (whisper_model_path gf)\<rparr>)"
  by (simp add: load_whisper_context_def init_whisper_context_def load_events_def emit_emit
      split: option.split)

lemma release_whisper_context_ok:
  assumes "whisper_context gf = None \<or>
           whisper_ctx_mutex gf \<noteq> None \<and> wshiper_thread_cv gf \<noteq> None"
  shows "release_whisper_context w gf =
           Next (emit (release_events gf) w, gf\<lparr>whisper_context := None\<rparr>)"
proof (cases "whisper_context gf")
  case None
  then have "gf\<lparr>whisper_context := None\<rparr> = gf" by simp
  with None show ?thesis
    by (simp add: release_whisper_context_def release_events_def emit_Nil)
next
  case (Some ctx)
  with assms show ?thesis
    by (auto simp: release_whisper_context_def release_events_def null_and_notify_def)
qed

lemma join_whisper_thread_eq:
  "join_whisper_thread w gf = (emit (join_events gf) w, gf\<lparr>whisper_thread := None\<rparr>)"
proof (cases "whisper_thread gf")
  case None
  then have "gf\<lparr>whisper_thread := None\<rparr> = gf" by simp
  with None show ?thesis
    by (simp add: join_whisper_thread_def join_events_def emit_Nil)
next
  case (Some t)
  then show ?thesis
    by (simp add: join_whisper_thread_def join_events_def)
qed

lemma start_whisper_thread_ok:
  assumes "whisper_thread gf = None"
  shows "start_whisper_thread w gf =
           Inr ((emit [ThreadStart (Thread (threads_started w))] w)
                   \<lparr>threads_started := Suc (threads_started w)\<rparr>,
                gf\<lparr>whisper_thread := Some (Thread (threads_started w))\<rparr>)"
  using assms by (simp add: start_whisper_thread_def Let_def emit_def)

lemma update_whisper_model_same:
  assumes "obs_data_get_string s ''whisper_model_path'' = whisper_model_path gf"
  shows "update_whisper_model w gf s = Inr (Next (w, gf))"
  using assms by (simp add: update_whisper_model_def)

lemma update_whisper_model_present:
  assumes "obs_data_get_string s ''whisper_model_path'' = p" "p \<noteq> whisper_model_path gf"
    and "whisper_context gf = None \<or>
         whisper_ctx_mutex gf \<noteq> None \<and> wshiper_thread_cv gf \<noteq> None"
    and "model_present w p"
  shows "update_whisper_model w gf s =
     Inr (Next ((emit (ObsLog LOG_INFO ''model path changed, reloading model'' #
                       release_events gf @ join_events gf @ CheckModelExists p True #
                       load_events w p @ [ThreadStart (Thread (threads_started w))]) w)
                  \<lparr>threads_started := Suc (threads_started w)\<rparr>,
                gf\<lparr>whisper_context := whisper_load w p,
                   whisper_thread := Some (Thread (threads_started w)),
                   whisper_model_path := p\<rparr>))"
  using assms(1,2,4)
  by (simp add: update_whisper_model_def Let_def release_whisper_context_ok [OF assms(3)]
      join_whisper_thread_eq load_whisper_context_eq start_whisper_thread_ok obs_log_def
      emit_emit emit_threads_started)

lemma update_whisper_model_absent:
  assumes "obs_data_get_string s ''whisper_model_path'' = p" "p \<noteq> whisper_model_path gf"
    and "whisper_context gf = None \<or>
         whisper_ctx_mutex gf \<noteq> None \<and> wshiper_thread_cv gf \<noteq> None"
    and "\<not> model_present w p"
  shows "update_whisper_model w gf s =
     Inr (Next (emit (ObsLog LOG_INFO ''model path changed, reloading model'' #
                      release_events gf @ join_events gf @
                      [CheckModelExists p False,
                       ObsLog LOG_ERROR ''Whisper model does not exist'',
                       DownloadModel p]) w,
                gf\<lparr>whisper_context := None, whisper_thread := None,
                   whisper_model_path := p\<rparr>))"
  using assms(1,2,4)
  by (simp add: update_whisper_model_def Let_def release_whisper_context_ok [OF assms(3)]
      join_whisper_thread_eq obs_log_def emit_emit)

lemma update_whisper_params_cases:
  "\<exists>es gf'. update_whisper_params w gf s = (emit es w, gf') \<and>
      \<not> list_ex engine_event es \<and> engine_unchanged gf gf'"
proof (cases "whisper_ctx_mutex gf")
  case None
  then have "update_whisper_params w gf s =
      (emit [ObsLog LOG_ERROR ''whisper_ctx_mutex is null''] w, gf)"
    by (simp add: update_whisper_params_def obs_log_def)
  then show ?thesis
    using engine_unchanged_refl [of gf] by (intro exI conjI) (assumption | simp)+
next
  case (Some m)
  then have "update_whisper_params w gf s =
      (emit [ObsLog (log_level gf) ''transcription_filter: update whisper params'',
             MutexLock whisper_ctx_lock, MutexUnlock whisper_ctx_lock] w,
       gf\<lparr>whisper_params := read_whisper_params w s\<rparr>)"
    by (simp add: update_whisper_params_def)
  moreover have "engine_unchanged gf (gf\<lparr>whisper_params := read_whisper_params w s\<rparr>)"
    by (simp add: engine_unchanged_def)
  ultimately show ?thesis by (intro exI conjI) (assumption | simp)+
qed

lemma update_prefix:
  "\<exists>es gf1.
     \<not> list_ex engine_event es \<and> engine_unchanged gf gf1 \<and>
     (text_source_mutex gf = None \<and> list_ex error_event es \<and>
        transcription_filter_update w gf s = Inr (emit es w, gf1) \<or>
      transcription_filter_update w gf s =
        (case update_whisper_model (emit es w) gf1 s of
           Inl c \<Rightarrow> Inl c
         | Inr (Returned x) \<Rightarrow> Inr x
         | Inr (Next (w3, gf3)) \<Rightarrow> Inr (update_whisper_params w3 gf3 s)))"
proof -
  let ?gf0 = "gf\<lparr>log_level := int_cast (obs_data_get_int s ''log_level''),
                   vad_enabled := obs_data_get_bool s ''vad_enabled'',
                   log_words := obs_data_get_bool s ''log_words'',
                   caption_to_stream := obs_data_get_bool s ''caption_to_stream''\<rparr>"
  let ?es0 = "[ObsLog (log_level gf) ''transcription_filter_update'',
               ObsLog (int_cast (obs_data_get_int s ''log_level''))
                 ''transcription_filter: update text source'']"
  have g0: "engine_unchanged gf ?gf0" "text_source_mutex ?gf0 = text_source_mutex gf"
    by (simp_all add: engine_unchanged_def)
  have unfold: "transcription_filter_update w gf s =
      (case update_text_source (emit ?es0 w) ?gf0 s of
           Returned x \<Rightarrow> Inr x
         | Next (w2, gf2) \<Rightarrow>
             (case update_whisper_model
                     (obs_log (log_level gf2) ''transcription_filter: update whisper model'' w2)
                     gf2 s of
                Inl c \<Rightarrow> Inl c
              | Inr (Returned x) \<Rightarrow> Inr x
              | Inr (Next (w3, gf3)) \<Rightarrow> Inr (update_whisper_params w3 gf3 s)))"
    by (simp add: transcription_filter_update_def Let_def obs_log_def emit_emit)
  from update_text_source_cases [of "emit ?es0 w" ?gf0 s] show ?thesis
  proof
    assume "\<exists>es gf'. update_text_source (emit ?es0 w) ?gf0 s = Next (emit es (emit ?es0 w), gf') \<and>
       \<not> list_ex engine_event es \<and> engine_unchanged ?gf0 gf' \<and> log_level gf' = log_level ?gf0"
    then obtain es gf' where 1:
      "update_text_source (emit ?es0 w) ?gf0 s = Next (emit es (emit ?es0 w), gf')"
      "\<not> list_ex engine_event es" "engine_unchanged ?gf0 gf'"
      by blast
    let ?es = "?es0 @ es @ [ObsLog (log_level gf') ''transcription_filter: update whisper model'']"
    have "transcription_filter_update w gf s =
        (case update_whisper_model (emit ?es w) gf' s of
           Inl c \<Rightarrow> Inl c
         | Inr (Returned x) \<Rightarrow> Inr x
         | Inr (Next (w3, gf3)) \<Rightarrow> Inr (update_whisper_params w3 gf3 s))"
      by (simp add: unfold 1(1) obs_log_def emit_emit)
    moreover have "\<not> list_ex engine_event ?es" using 1(2) by simp
    moreover have "engine_unchanged gf gf'"
      using g0(1) 1(3) by (rule engine_unchanged_trans)
    ultimately show ?thesis by blast
  next
    assume a: "text_source_mutex ?gf0 = None \<and>
      update_text_source (emit ?es0 w) ?gf0 s =
        Returned (emit [ObsLog LOG_ERROR ''text_source_mutex is null''] (emit ?es0 w), ?gf0)"
    let ?es = "?es0 @ [ObsLog LOG_ERROR ''text_source_mutex is null'']"
    have "transcription_filter_update w gf s = Inr (emit ?es w, ?gf0)"
      using a by (simp add: unfold emit_emit)
    moreover have "\<not> list_ex engine_event ?es" "list_ex error_event ?es" by simp_all
    moreover have "text_source_mutex gf = None" using a g0(2) by simp
    ultimately show ?thesis using g0(1) by blast
  qed
qed

lemma history_threads_started [simp]:
  "history (w\<lparr>threads_started := n\<rparr>) = history w"
  by simp

text \<open>
  C7: an update whose model path equals the loaded one swaps nothing. The update returns,
  the engine handle, the worker thread handle and the model path are the ones the filter
  had, no thread is started, and the update issues no engine event at all: no free, no
  store to the handle, no notification, no join, no load, no thread start.
\<close>

theorem same_model_path_no_swap:
  assumes "obs_data_get_string s ''whisper_model_path'' = whisper_model_path gf"
  shows "\<exists>w' gf' es.
           transcription_filter_update w gf s = Inr (w', gf') \<and>
           history w' = history w @ es \<and> \<not> list_ex engine_event es \<and>
           whisper_context gf' = whisper_context gf \<and>
           whisper_thread gf' = whisper_thread gf \<and>
           whisper_model_path gf' = whisper_model_path gf \<and>
           threads_started w' = threads_started w"
proof -
  obtain es gf1 where p: "\<not> list_ex engine_event es" "engine_unchanged gf gf1"
    and c: "text_source_mutex gf = None \<and> list_ex error_event es \<and>
        transcription_filter_update w gf s = Inr (emit es w, gf1) \<or>
      transcription_filter_update w gf s =
        (case update_whisper_model (emit es w) gf1 s of
           Inl c \<Rightarrow> Inl c
         | Inr (Returned x) \<Rightarrow> Inr x
         | Inr (Next (w3, gf3)) \<Rightarrow> Inr (update_whisper_params w3 gf3 s))"
    using update_prefix [of gf w s] by blast
  from c show ?thesis
  proof
    assume "text_source_mutex gf = None \<and> list_ex error_event es \<and>
        transcription_filter_update w gf s = Inr (emit es w, gf1)"
    then show ?thesis
      using p by (intro exI [of _ "emit es w"] exI [of _ gf1] exI [of _ es])
        (simp add: engine_unchanged_def)
  next
    assume u: "transcription_filter_update w gf s =
        (case update_whisper_model (emit es w) gf1 s of
           Inl c \<Rightarrow> Inl c
         | Inr (Returned x) \<Rightarrow> Inr x
         | Inr (Next (w3, gf3)) \<Rightarrow> Inr (update_whisper_params w3 gf3 s))"
    have "obs_data_get_string s ''whisper_model_path'' = whisper_model_path gf1"
      using assms p(2) by (simp add: engine_unchanged_def)
    then have m: "update_whisper_model (emit es w) gf1 s = Inr (Next (emit es w, gf1))"
      by (rule update_whisper_model_same)
    obtain es2 gf' where q: "update_whisper_params (emit es w) gf1 s = (emit es2 (emit es w), gf')"
      "\<not> list_ex engine_event es2" "engine_unchanged gf1 gf'"
      using update_whisper_params_cases by blast
    have "engine_unchanged gf gf'"
      using p(2) q(3) by (rule engine_unchanged_trans)
    then show ?thesis
      using p(1) q(2)
      by (intro exI [of _ "emit es2 (emit es w)"] exI [of _ gf'] exI [of _ "es @ es2"])
        (simp add: u m q(1) engine_unchanged_def)
  qed
qed

lemma example_settings_path:
  "obs_data_get_string example_settings ''whisper_model_path'' = ''models/ggml-tiny.en.bin''"
  by (simp add: example_settings_def obs_data_get_string_def obs_data_item_def
      transcription_filter_defaults_def default_items_set_default user_items_set_default)

lemma example_filter_engine:
  "whisper_model_path example_filter = ''models/ggml-tiny.en.bin''"
  "whisper_context example_filter = Some (WhisperContext 0)"
  "whisper_thread example_filter = Some (Thread 0)"
  by (simp_all add: example_filter_def zero_filter_data_def)

theorem same_model_path_no_swap_witness:
  "obs_data_get_string example_settings ''whisper_model_path'' =
     whisper_model_path example_filter \<and>
   (\<exists>w' gf'.
      transcription_filter_update example_world example_filter example_settings = Inr (w', gf') \<and>
      \<not> list_ex engine_event (history w') \<and>
      whisper_context gf' = Some (WhisperContext 0) \<and> whisper_thread gf' = Some (Thread 0) \<and>
      threads_started w' = 1)"
proof -
  have e: "obs_data_get_string example_settings ''whisper_model_path'' =
     whisper_model_path example_filter"
    by (simp add: example_settings_path example_filter_engine)
  have h: "history example_world = []" "threads_started example_world = 1"
    by (simp_all add: example_world_def)
  from same_model_path_no_swap [OF e, of example_world] show ?thesis
    using e by (auto simp: h example_filter_engine)
qed

lemma filter_engine_event_load:
  "filter engine_event (load_events w p) =
     [InitWhisperContext p (whisper_load w p), ContextStore (whisper_load w p)]"
  by (simp add: load_events_def LOG_ERROR_def split: option.split)

lemma update_swap:
  assumes inv: "whisper_ctx_mutex gf \<noteq> None" "wshiper_thread_cv gf \<noteq> None"
      "text_source_mutex gf \<noteq> None"
    and path: "obs_data_get_string s ''whisper_model_path'' = p" "p \<noteq> whisper_model_path gf"
  shows "\<exists>w' gf' pre post.
      transcription_filter_update w gf s = Inr (w', gf') \<and>
      history w' = history w @ pre @ release_events gf @ join_events gf @ post \<and>
      \<not> list_ex engine_event pre \<and>
      filter engine_event post = 
        (if model_present w p
         then [InitWhisperContext p (whisper_load w p), ContextStore (whisper_load w p),
               ThreadStart (Thread (threads_started w))]
         else []) \<and>
      (model_present w p \<or> DownloadModel p \<in> set post) \<and>
      (model_present w p \<longrightarrow> set (load_events w p) \<subseteq> set post) \<and>
      engine_unchanged
        (gf\<lparr>whisper_context := (if model_present w p then whisper_load w p else None),
            whisper_thread :=
              (if model_present w p then Some (Thread (threads_started w)) else None),
            whisper_model_path := p\<rparr>) gf'"
proof -
  obtain es gf1 where p: "\<not> list_ex engine_event es" "engine_unchanged gf gf1"
    and c: "text_source_mutex gf = None \<and> list_ex error_event es \<and>
        transcription_filter_update w gf s = Inr (emit es w, gf1) \<or>
      transcription_filter_update w gf s =
        (case update_whisper_model (emit es w) gf1 s of
           Inl c \<Rightarrow> Inl c
         | Inr (Returned x) \<Rightarrow> Inr x
         | Inr (Next (w3, gf3)) \<Rightarrow> Inr (update_whisper_params w3 gf3 s))"
    using update_prefix [of gf w s] by blast
  from c inv(3) have u: "transcription_filter_update w gf s =
        (case update_whisper_model (emit es w) gf1 s of
           Inl c \<Rightarrow> Inl c
         | Inr (Returned x) \<Rightarrow> Inr x
         | Inr (Next (w3, gf3)) \<Rightarrow> Inr (update_whisper_params w3 gf3 s))"
    by blast
  have g1: "whisper_context gf1 = whisper_context gf" "whisper_thread gf1 = whisper_thread gf"
    "whisper_model_path gf1 = whisper_model_path gf" "whisper_ctx_mutex gf1 \<noteq> None"
    "wshiper_thread_cv gf1 \<noteq> None"
    using p(2) inv by (simp_all add: engine_unchanged_def)
  have ev: "release_events gf1 = release_events gf" "join_events gf1 = join_events gf"
    by (simp_all add: release_events_def join_events_def g1)
  have ok: "whisper_context gf1 = None \<or>
         whisper_ctx_mutex gf1 \<noteq> None \<and> wshiper_thread_cv gf1 \<noteq> None"
    using g1 by simp
  have ne: "p \<noteq> whisper_model_path gf1" using path(2) g1 by simp
  let ?pre = "es @ [ObsLog LOG_INFO ''model path changed, reloading model'']"
  have pre: "\<not> list_ex engine_event ?pre" using p(1) by simp
  show ?thesis
  proof (cases "model_present w p")
    case True
    let ?mid = "CheckModelExists p True # load_events w p @
                [ThreadStart (Thread (threads_started w))]"
    let ?w3 = "(emit (ObsLog LOG_INFO ''model path changed, reloading model'' #
                       release_events gf @ join_events gf @ ?mid) (emit es w))
                  \<lparr>threads_started := Suc (threads_started w)\<rparr>"
    let ?gf3 = "gf1\<lparr>whisper_context := whisper_load w p,
                   whisper_thread := Some (Thread (threads_started w)),
                   whisper_model_path := p\<rparr>"
    have m: "update_whisper_model (emit es w) gf1 s = Inr (Next (?w3, ?gf3))"
      using update_whisper_model_present [OF path(1) ne ok, of "emit es w"] True
      by (simp add: ev)
    obtain es2 gf' where q: "update_whisper_params ?w3 ?gf3 s = (emit es2 ?w3, gf')"
      "\<not> list_ex engine_event es2" "engine_unchanged ?gf3 gf'"
      using update_whisper_params_cases by blast
    have r: "transcription_filter_update w gf s = Inr (emit es2 ?w3, gf')"
      by (simp add: u m q(1))
    have h: "history (emit es2 ?w3) =
        history w @ ?pre @ release_events gf @ join_events gf @ (?mid @ es2)"
      by simp
    have f: "filter engine_event (?mid @ es2) =
        [InitWhisperContext p (whisper_load w p), ContextStore (whisper_load w p),
         ThreadStart (Thread (threads_started w))]"
      using q(2) by (simp add: filter_engine_event_load filter_empty_conv list_ex_iff)
    have e: "set (load_events w p) \<subseteq> set (?mid @ es2)"
      by auto
    have "engine_unchanged
        (gf\<lparr>whisper_context := whisper_load w p,
            whisper_thread := Some (Thread (threads_started w)),
            whisper_model_path := p\<rparr>) ?gf3"
      using p(2) by (simp add: engine_unchanged_def)
    then have g: "engine_unchanged
        (gf\<lparr>whisper_context := whisper_load w p,
            whisper_thread := Some (Thread (threads_started w)),
            whisper_model_path := p\<rparr>) gf'"
      using q(3) by (rule engine_unchanged_trans)
    show ?thesis
      using r h pre f e g True
      by (intro exI [of _ "emit es2 ?w3"] exI [of _ gf'] exI [of _ ?pre]
          exI [of _ "?mid @ es2"]) (simp only: simp_thms if_True)
  next
    case False
    let ?mid = "[CheckModelExists p False,
                 ObsLog LOG_ERROR ''Whisper model does not exist'', DownloadModel p]"
    let ?w3 = "emit (ObsLog LOG_INFO ''model path changed, reloading model'' #
                       release_events gf @ join_events gf @ ?mid) (emit es w)"
    let ?gf3 = "gf1\<lparr>whisper_context := None, whisper_thread := None,
                   whisper_model_path := p\<rparr>"
    have m: "update_whisper_model (emit es w) gf1 s = Inr (Next (?w3, ?gf3))"
      using update_whisper_model_absent [OF path(1) ne ok, of "emit es w"] False
      by (simp add: ev)
    obtain es2 gf' where q: "update_whisper_params ?w3 ?gf3 s = (emit es2 ?w3, gf')"
      "\<not> list_ex engine_event es2" "engine_unchanged ?gf3 gf'"
      using update_whisper_params_cases by blast
    have r: "transcription_filter_update w gf s = Inr (emit es2 ?w3, gf')"
      by (simp add: u m q(1))
    have h: "history (emit es2 ?w3) =
        history w @ ?pre @ release_events gf @ join_events gf @ (?mid @ es2)"
      by simp
    have f: "filter engine_event (?mid @ es2) = []"
      using q(2) by (simp add: filter_empty_conv list_ex_iff)
    have d: "DownloadModel p \<in> set (?mid @ es2)" by simp
    have "engine_unchanged
        (gf\<lparr>whisper_context := None, whisper_thread := None, whisper_model_path := p\<rparr>) ?gf3"
      using p(2) by (simp add: engine_unchanged_def)
    then have g: "engine_unchanged
        (gf\<lparr>whisper_context := None, whisper_thread := None, whisper_model_path := p\<rparr>) gf'"
      using q(3) by (rule engine_unchanged_trans)
    show ?thesis
      using r h pre f d g False
      by (intro exI [of _ "emit es2 ?w3"] exI [of _ gf'] exI [of _ ?pre]
          exI [of _ "?mid @ es2"]) (simp only: simp_thms if_False)
  qed
qed

lemma download_callback_success:
  assumes "whisper_thread gf = None"
  shows "download_callback w gf 0 =
     Inr ((emit (ObsLog LOG_INFO ''Model download complete'' #
                 load_events w (whisper_model_path gf) @
                 [ThreadStart (Thread (threads_started w))]) w)
             \<lparr>threads_started := Suc (threads_started w)\<rparr>,
          gf\<lparr>whisper_context := whisper_load w (whisper_model_path gf),
             whisper_thread := Some (Thread (threads_started w))\<rparr>)"
  using assms
  by (simp add: download_callback_def load_whisper_context_eq start_whisper_thread_ok
      obs_log_def emit_emit emit_threads_started)

lemma download_callback_failure:
  assumes "download_status \<noteq> 0"
  shows "download_callback w gf download_status =
           Inr (emit [ObsLog LOG_ERROR ''Model download failed''] w, gf)"
  using assms by (simp add: download_callback_def obs_log_def)

text \<open>
  C1: a model swap. When the settings name another model path than the loaded one and the
  filter holds an engine handle, the update returns and its history reads: events that do
  not concern the engine; then, between the lock and the unlock of the engine mutex, the
  free of the handle, the store of null and the notification; then the join of the worker
  thread the filter had; and only then, when the weight file is present, the load of the
  new handle, its store and the start of the new worker, in this order and nothing else
  on the engine. When the file is not present the update creates nothing: it requests the
  download and leaves the filter without engine and without worker.
\<close>

theorem model_swap_order:
  assumes "filter_invariant gf" and "whisper_context gf = Some ctx"
    and "obs_data_get_string s ''whisper_model_path'' = p" and "p \<noteq> whisper_model_path gf"
  shows "\<exists>t w' gf' pre post.
      whisper_thread gf = Some t \<and>
      transcription_filter_update w gf s = Inr (w', gf') \<and>
      history w' = history w @ pre @ null_and_notify ctx @ ThreadJoin t # post \<and>
      \<not> list_ex engine_event pre \<and>
      filter engine_event post =
        (if model_present w p
         then [InitWhisperContext p (whisper_load w p), ContextStore (whisper_load w p),
               ThreadStart (Thread (threads_started w))]
         else []) \<and>
      whisper_model_path gf' = p \<and>
      whisper_context gf' = (if model_present w p then whisper_load w p else None) \<and>
      whisper_thread gf' =
        (if model_present w p then Some (Thread (threads_started w)) else None) \<and>
      (model_present w p \<or> DownloadModel p \<in> set post)"
proof -
  from assms(1,2) obtain t where t: "whisper_thread gf = Some t"
    by (auto simp: filter_invariant_def)
  have inv: "whisper_ctx_mutex gf \<noteq> None" "wshiper_thread_cv gf \<noteq> None"
      "text_source_mutex gf \<noteq> None"
    using assms(1) by (simp_all add: filter_invariant_def)
  have ev: "release_events gf = null_and_notify ctx" "join_events gf = [ThreadJoin t]"
    by (simp_all add: release_events_def join_events_def assms(2) t)
  from update_swap [OF inv assms(3,4), of w]
  obtain w' gf' pre post where 1:
    "transcription_filter_update w gf s = Inr (w', gf')"
    "history w' = history w @ pre @ release_events gf @ join_events gf @ post"
    "\<not> list_ex engine_event pre"
    "filter engine_event post =
        (if model_present w p
         then [InitWhisperContext p (whisper_load w p), ContextStore (whisper_load w p),
               ThreadStart (Thread (threads_started w))]
         else [])"
    "model_present w p \<or> DownloadModel p \<in> set post"
    "engine_unchanged
        (gf\<lparr>whisper_context := (if model_present w p then whisper_load w p else None),
            whisper_thread :=
              (if model_present w p then Some (Thread (threads_started w)) else None),
            whisper_model_path := p\<rparr>) gf'"
    by blast
  from 1(6) have g: "whisper_model_path gf' = p"
    "whisper_context gf' = (if model_present w p then whisper_load w p else None)"
    "whisper_thread gf' =
        (if model_present w p then Some (Thread (threads_started w)) else None)"
    by (simp_all add: engine_unchanged_def)
  from 1(2) have h: "history w' = history w @ pre @ null_and_notify ctx @ ThreadJoin t # post"
    by (simp add: ev)
  show ?thesis
    using t 1(1) h 1(3) 1(4) g 1(5) by blast
qed

lemma settings_for_path:
  "obs_data_get_string (settings_for path) ''whisper_model_path'' = path"
  by (simp add: settings_for_def obs_data_get_string_def obs_data_item_def)

lemma example_world_models:
  "model_present example_world ''models/ggml-tiny.bin''"
  "whisper_load example_world ''models/ggml-tiny.bin'' = Some (WhisperContext 1)"
  "model_present example_world ''models/broken.bin''"
  "whisper_load example_world ''models/broken.bin'' = None"
  "\<not> model_present example_world ''models/ggml-base.bin''"
  "threads_started example_world = 1"
  "history example_world = []"
  by (simp_all add: example_world_def)

theorem model_swap_order_witness:
  "filter_invariant example_filter \<and>
   whisper_context example_filter = Some (WhisperContext 0) \<and>
   obs_data_get_string (settings_for ''models/ggml-tiny.bin'') ''whisper_model_path'' =
     ''models/ggml-tiny.bin'' \<and>
   ''models/ggml-tiny.bin'' \<noteq> whisper_model_path example_filter \<and>
   (\<exists>w' gf' pre post.
      transcription_filter_update example_world example_filter
          (settings_for ''models/ggml-tiny.bin'') = Inr (w', gf') \<and>
      history w' = pre @ null_and_notify (WhisperContext 0) @ ThreadJoin (Thread 0) # post \<and>
      \<not> list_ex engine_event pre \<and>
      filter engine_event post =
        [InitWhisperContext ''models/ggml-tiny.bin'' (Some (WhisperContext 1)),
         ContextStore (Some (WhisperContext 1)), ThreadStart (Thread 1)] \<and>
      whisper_context gf' = Some (WhisperContext 1) \<and>
      whisper_thread gf' = Some (Thread 1))"
proof -
  have ne: "''models/ggml-tiny.bin'' \<noteq> whisper_model_path example_filter"
    by (simp add: example_filter_engine)
  from model_swap_order [OF example_filter_invariant example_filter_engine(2)
      settings_for_path ne, of example_world]
  show ?thesis
    using example_filter_invariant ne
    by (auto simp: example_filter_engine example_world_models settings_for_path)
qed

subsection \<open>The invariant\<close>

lemma filter_invariant_unchanged:
  "engine_unchanged gf gf' \<Longrightarrow> filter_invariant gf \<Longrightarrow> filter_invariant gf'"
  by (simp add: engine_unchanged_def filter_invariant_def)

lemma update_same_path:
  assumes "obs_data_get_string s ''whisper_model_path'' = whisper_model_path gf"
  shows "\<exists>w' gf' es. transcription_filter_update w gf s = Inr (w', gf') \<and>
           history w' = history w @ es \<and> engine_unchanged gf gf' \<and>
           threads_started w' = threads_started w"
proof -
  obtain es gf1 where p: "\<not> list_ex engine_event es" "engine_unchanged gf gf1"
    and c: "text_source_mutex gf = None \<and> list_ex error_event es \<and>
        transcription_filter_update w gf s = Inr (emit es w, gf1) \<or>
      transcription_filter_update w gf s =
        (case update_whisper_model (emit es w) gf1 s of
           Inl c \<Rightarrow> Inl c
         | Inr (Returned x) \<Rightarrow> Inr x
         | Inr (Next (w3, gf3)) \<Rightarrow> Inr (update_whisper_params w3 gf3 s))"
    using update_prefix [of gf w s] by blast
  from c show ?thesis
  proof
    assume "text_source_mutex gf = None \<and> list_ex error_event es \<and>
        transcription_filter_update w gf s = Inr (emit es w, gf1)"
    then show ?thesis
      using p by (intro exI [of _ "emit es w"] exI [of _ gf1] exI [of _ es]) simp
  next
    assume u: "transcription_filter_update w gf s =
        (case update_whisper_model (emit es w) gf1 s of
           Inl c \<Rightarrow> Inl c
         | Inr (Returned x) \<Rightarrow> Inr x
         | Inr (Next (w3, gf3)) \<Rightarrow> Inr (update_whisper_params w3 gf3 s))"
    have "obs_data_get_string s ''whisper_model_path'' = whisper_model_path gf1"
      using assms p(2) by (simp add: engine_unchanged_def)
    then have m: "update_whisper_model (emit es w) gf1 s = Inr (Next (emit es w, gf1))"
      by (rule update_whisper_model_same)
    obtain es2 gf' where q: "update_whisper_params (emit es w) gf1 s = (emit es2 (emit es w), gf')"
      "\<not> list_ex engine_event es2" "engine_unchanged gf1 gf'"
      using update_whisper_params_cases by blast
    have "engine_unchanged gf gf'"
      using p(2) q(3) by (rule engine_unchanged_trans)
    then show ?thesis
      by (intro exI [of _ "emit es2 (emit es w)"] exI [of _ gf'] exI [of _ "es @ es2"])
        (simp add: u m q(1))
  qed
qed

text \<open>The update keeps the invariant and never crashes on a state that has it.\<close>

lemma update_invariant:
  assumes "filter_invariant gf"
  shows "\<exists>w' gf'. transcription_filter_update w gf s = Inr (w', gf') \<and> filter_invariant gf'"
proof (cases "obs_data_get_string s ''whisper_model_path'' = whisper_model_path gf")
  case True
  from update_same_path [OF True, of w] assms show ?thesis
    using filter_invariant_unchanged by blast
next
  case False
  have inv: "whisper_ctx_mutex gf \<noteq> None" "wshiper_thread_cv gf \<noteq> None"
      "text_source_mutex gf \<noteq> None"
    using assms by (simp_all add: filter_invariant_def)
  let ?p = "obs_data_get_string s ''whisper_model_path''"
  from update_swap [OF inv refl, of s w] False
  obtain w' gf' where 1: "transcription_filter_update w gf s = Inr (w', gf')"
    "engine_unchanged
        (gf\<lparr>whisper_context := (if model_present w ?p then whisper_load w ?p else None),
            whisper_thread :=
              (if model_present w ?p then Some (Thread (threads_started w)) else None),
            whisper_model_path := ?p\<rparr>) gf'"
    by metis
  have "filter_invariant
        (gf\<lparr>whisper_context := (if model_present w ?p then whisper_load w ?p else None),
            whisper_thread :=
              (if model_present w ?p then Some (Thread (threads_started w)) else None),
            whisper_model_path := ?p\<rparr>)"
    using assms by (simp add: filter_invariant_def)
  with 1 show ?thesis using filter_invariant_unchanged by blast
qed

lemma create_buffers_ok:
  assumes "zeroed_string_assign w (obs_data_get_string settings ''whisper_model_path'')"
  shows "\<exists>gf0. create_buffers w settings source = Inr gf0 \<and>
           whisper_model_path gf0 = obs_data_get_string settings ''whisper_model_path'' \<and>
           channels gf0 = audio_channels w \<and>
           length (input_buffers gf0) = MAX_AUDIO_CHANNELS \<and> copy_buffers gf0 \<noteq> None \<and>
           whisper_thread gf0 = None"
  using assms by (simp add: create_buffers_def Let_def zero_filter_data_def)

text \<open>
  Where the library does not take the assignment of line 399, the constructor ends there:
  nothing is loaded and nothing is logged.
\<close>

lemma create_undefined:
  assumes "\<not> zeroed_string_assign w (obs_data_get_string settings ''whisper_model_path'')"
  shows "transcription_filter_create w settings source = Inl UndefinedBehaviour"
  using assms by (simp add: transcription_filter_create_def create_buffers_def Let_def)

lemma create_failure:
  assumes "zeroed_string_assign w (obs_data_get_string settings ''whisper_model_path'')"
    and "whisper_load w (obs_data_get_string settings ''whisper_model_path'') = None"
  shows "transcription_filter_create w settings source =
     Inr (emit (load_events w (obs_data_get_string settings ''whisper_model_path'') @
                [ObsLog LOG_ERROR ''Failed to load whisper model'']) w, None)"
proof -
  obtain gf0 where g: "create_buffers w settings source = Inr gf0"
    "whisper_model_path gf0 = obs_data_get_string settings ''whisper_model_path''"
    using create_buffers_ok [OF assms(1)] by blast
  show ?thesis
    using assms(2)
    by (simp add: transcription_filter_create_def g load_whisper_context_eq obs_log_def
        emit_emit)
qed

text \<open>
  Where the library takes both assignments (lines 399 and 430), the constructor
  establishes the invariant and does not crash.
\<close>

lemma create_success:
  assumes "whisper_load w (obs_data_get_string settings ''whisper_model_path'') = Some ctx"
    and "audio_channels w \<le> MAX_AUDIO_CHANNELS"
    and "zeroed_string_assign w (obs_data_get_string settings ''whisper_model_path'')"
    and "zeroed_string_assign w []"
  shows "\<exists>w' gf. transcription_filter_create w settings source = Inr (w', Some gf) \<and>
           filter_invariant gf \<and> active gf \<and> whisper_context gf = Some ctx"
proof -
  let ?p = "obs_data_get_string settings ''whisper_model_path''"
  obtain gf0 where g0: "create_buffers w settings source = Inr gf0"
    "whisper_model_path gf0 = ?p" "channels gf0 = audio_channels w"
    "length (input_buffers gf0) = MAX_AUDIO_CHANNELS" "copy_buffers gf0 \<noteq> None"
    "whisper_thread gf0 = None"
    using create_buffers_ok [OF assms(3)] by blast
  let ?gf1 = "gf0\<lparr>whisper_context := Some ctx\<rparr>"
  let ?w1 = "emit (load_events w ?p) w"
  have l: "load_whisper_context w gf0 = (?w1, ?gf1)"
    by (simp add: load_whisper_context_eq g0(2) assms(1))
  obtain w2 gf2 where s: "create_sync ?w1 settings ?gf1 = Inr (w2, gf2)"
    using assms(4) by (simp add: create_sync_def Let_def)
  have g2: "whisper_buf_mutex gf2 \<noteq> None" "whisper_ctx_mutex gf2 \<noteq> None"
    "wshiper_thread_cv gf2 \<noteq> None" "text_source_mutex gf2 \<noteq> None"
    "whisper_thread gf2 = None" "whisper_context gf2 = Some ctx"
    "whisper_model_path gf2 = ?p" "channels gf2 = audio_channels w"
    "length (input_buffers gf2) = MAX_AUDIO_CHANNELS" "copy_buffers gf2 \<noteq> None"
    using s g0 assms(4) by (auto simp: create_sync_def Let_def)
  let ?w2 = "obs_log (log_level gf2) ''transcription_filter: run update'' w2"
  obtain w3 gf3 where u: "transcription_filter_update ?w2 gf2 settings = Inr (w3, gf3)"
    "engine_unchanged gf2 gf3"
    using update_same_path [of settings gf2 ?w2] g2(7) by auto
  have g3: "whisper_thread gf3 = None" using u(2) g2(5) by (simp add: engine_unchanged_def)
  let ?w3 = "obs_log (log_level gf3) ''transcription_filter: start whisper thread'' w3"
  let ?gf4 = "gf3\<lparr>whisper_thread := Some (Thread (threads_started ?w3))\<rparr>"
  have t: "start_whisper_thread ?w3 gf3 =
      Inr ((emit [ThreadStart (Thread (threads_started ?w3))] ?w3)
              \<lparr>threads_started := Suc (threads_started ?w3)\<rparr>, ?gf4)"
    using g3 by (rule start_whisper_thread_ok)
  have c: "transcription_filter_create w settings source =
      Inr (obs_log (log_level ?gf4) ''transcription_filter: filter created.''
             ((emit [ThreadStart (Thread (threads_started ?w3))] ?w3)
                \<lparr>threads_started := Suc (threads_started ?w3)\<rparr>),
           Some (?gf4\<lparr>active := True\<rparr>))"
    by (simp add: transcription_filter_create_def g0(1) l s u(1) t)
  have "filter_invariant (?gf4\<lparr>active := True\<rparr>)"
    using u(2) g2 assms(2) by (simp add: filter_invariant_def engine_unchanged_def)
  moreover have "whisper_context (?gf4\<lparr>active := True\<rparr>) = Some ctx"
    using u(2) g2 by (simp add: engine_unchanged_def)
  ultimately show ?thesis using c by simp
qed

lemma activate_invariant:
  "filter_invariant gf \<Longrightarrow> filter_invariant (snd (transcription_filter_activate w gf))"
  "filter_invariant gf \<Longrightarrow> filter_invariant (snd (transcription_filter_deactivate w gf))"
  by (simp_all add: transcription_filter_activate_def transcription_filter_deactivate_def
      filter_invariant_def)

lemma download_callback_invariant:
  assumes "filter_invariant gf" "whisper_context gf = None" "whisper_thread gf = None"
  shows "\<exists>w' gf'. download_callback w gf st = Inr (w', gf') \<and> filter_invariant gf'"
proof (cases "st = 0")
  case True
  with assms show ?thesis
    by (simp add: download_callback_success filter_invariant_def)
next
  case False
  with assms show ?thesis
    by (simp add: download_callback_failure)
qed

lemma publish_invariant:
  assumes "filter_invariant gf"
  shows "\<exists>w' gf'. set_text_callback w gf str = Inr (w', gf') \<and> filter_invariant gf'"
  using assms
  by (auto simp: set_text_callback_def acquire_weak_text_source_ref_def Let_def
      filter_invariant_def ofstream_open_trunc_def split: option.split)

lemma filter_audio_invariant:
  assumes "filter_invariant gf"
  shows "\<exists>w' gf'. transcription_filter_filter_audio w (Some gf) (Some a) = (w', Some gf', Some a) \<and>
           filter_invariant gf'"
  using assms push_audio_invariant [of gf a]
  by (auto simp: transcription_filter_filter_audio_def)

text \<open>
  After the constructor: a swap to a weight file that is present but does not load. The
  update returns; the load's error is in the log (it is the one of
  \<open>init_whisper_context\<close>: lines 332 to 334 do not test the handle, and start a worker
  on the null handle); the filter is left without engine handle, its invariant holds,
  and the ingest passes every packet through.
\<close>

lemma swap_to_broken_model:
  assumes "filter_invariant gf" and "obs_data_get_string s ''whisper_model_path'' = p"
    and "p \<noteq> whisper_model_path gf" and "model_present w p" and "whisper_load w p = None"
  shows "\<exists>w' gf' es. transcription_filter_update w gf s = Inr (w', gf') \<and>
           history w' = history w @ es \<and>
           ObsLog LOG_ERROR ''Failed to load whisper model'' \<in> set es \<and>
           whisper_context gf' = None \<and>
           whisper_thread gf' = Some (Thread (threads_started w)) \<and>
           filter_invariant gf' \<and>
           (\<forall>w2 a. transcription_filter_filter_audio w2 (Some gf') (Some a) =
                     (w2, Some gf', Some a))"
proof -
  have inv: "whisper_ctx_mutex gf \<noteq> None" "wshiper_thread_cv gf \<noteq> None"
      "text_source_mutex gf \<noteq> None"
    using assms(1) by (simp_all add: filter_invariant_def)
  have le: "ObsLog LOG_ERROR ''Failed to load whisper model'' \<in> set (load_events w p)"
    using assms(5) by (simp add: load_events_def)
  from update_swap [OF inv assms(2,3), of w] assms(4,5)
  obtain w' gf' pre post where 1:
    "transcription_filter_update w gf s = Inr (w', gf')"
    "history w' = history w @ pre @ release_events gf @ join_events gf @ post"
    "set (load_events w p) \<subseteq> set post"
    "engine_unchanged
        (gf\<lparr>whisper_context := None, whisper_thread := Some (Thread (threads_started w)),
            whisper_model_path := p\<rparr>) gf'"
    by auto
  have "filter_invariant
        (gf\<lparr>whisper_context := None, whisper_thread := Some (Thread (threads_started w)),
            whisper_model_path := p\<rparr>)"
    using assms(1) by (simp add: filter_invariant_def)
  with 1(4) have i: "filter_invariant gf'" by (rule filter_invariant_unchanged)
  from 1(4) have n: "whisper_context gf' = None"
    "whisper_thread gf' = Some (Thread (threads_started w))"
    by (simp_all add: engine_unchanged_def)
  have e: "ObsLog LOG_ERROR ''Failed to load whisper model'' \<in>
             set (pre @ release_events gf @ join_events gf @ post)"
    using 1(3) le by auto
  show ?thesis
    using 1(1,2) e n i filter_audio_pass [of gf'] by blast
qed

text \<open>
  After the constructor: a swap to a weight file that is not present, and a download that
  fails. The update has left the filter without engine handle and with its invariant; the
  completion callback logs that the download failed and changes nothing; the ingest
  passes every packet through.
\<close>

lemma failed_download:
  assumes "filter_invariant gf" and "obs_data_get_string s ''whisper_model_path'' = p"
    and "p \<noteq> whisper_model_path gf" and "\<not> model_present w p" and "download_status \<noteq> 0"
  shows "\<exists>w' gf'. transcription_filter_update w gf s = Inr (w', gf') \<and>
           whisper_context gf' = None \<and> filter_invariant gf' \<and>
           (\<forall>w2. download_callback w2 gf' download_status =
                   Inr (emit [ObsLog LOG_ERROR ''Model download failed''] w2, gf')) \<and>
           (\<forall>w2 a. transcription_filter_filter_audio w2 (Some gf') (Some a) =
                     (w2, Some gf', Some a))"
proof -
  have inv: "whisper_ctx_mutex gf \<noteq> None" "wshiper_thread_cv gf \<noteq> None"
      "text_source_mutex gf \<noteq> None"
    using assms(1) by (simp_all add: filter_invariant_def)
  from update_swap [OF inv assms(2,3), of w] assms(4)
  obtain w' gf' where 1:
    "transcription_filter_update w gf s = Inr (w', gf')"
    "engine_unchanged
        (gf\<lparr>whisper_context := None, whisper_thread := None, whisper_model_path := p\<rparr>) gf'"
    by auto
  have "filter_invariant
        (gf\<lparr>whisper_context := None, whisper_thread := None, whisper_model_path := p\<rparr>)"
    using assms(1) by (simp add: filter_invariant_def)
  with 1(2) have i: "filter_invariant gf'" by (rule filter_invariant_unchanged)
  from 1(2) have n: "whisper_context gf' = None" by (simp add: engine_unchanged_def)
  show ?thesis
    using 1(1) n i download_callback_failure [OF assms(5), of _ gf'] filter_audio_pass [of gf']
    by blast
qed



text \<open>
  On the same host a successful creation does not return either: the assignment of line
  430 to \<^verbatim>\<open>output_file_path\<close> is of the empty string.
\<close>

lemma constructor_libstdcxx_crashes:
  assumes "zeroed_string_assign w = libstdcxx_assign"
    and "whisper_load w (obs_data_get_string settings ''whisper_model_path'') = Some ctx"
  shows "transcription_filter_create w settings source = Inl UndefinedBehaviour"
proof (cases "zeroed_string_assign w (obs_data_get_string settings ''whisper_model_path'')")
  case False
  then show ?thesis by (rule create_undefined)
next
  case True
  obtain gf0 where g: "create_buffers w settings source = Inr gf0"
    "whisper_model_path gf0 = obs_data_get_string settings ''whisper_model_path''"
    using create_buffers_ok [OF True] by blast
  have "\<not> zeroed_string_assign w []"
    by (simp add: assms(1) libstdcxx_assign_def)
  then show ?thesis
    using assms(2)
    by (simp add: transcription_filter_create_def g load_whisper_context_eq create_sync_def
        Let_def)
qed

subsection \<open>Destruction\<close>

lemma destroy_whisper_context_ok:
  assumes "whisper_ctx_mutex gf \<noteq> None" "wshiper_thread_cv gf \<noteq> None"
  shows "destroy_whisper_context w gf =
     Inr (emit (case whisper_context gf of
                  Some ctx \<Rightarrow> null_and_notify ctx
                | None \<Rightarrow> [MutexLock whisper_ctx_lock, MutexUnlock whisper_ctx_lock]) w,
          gf\<lparr>whisper_context := None\<rparr>)"
proof (cases "whisper_context gf")
  case None
  then have "gf\<lparr>whisper_context := None\<rparr> = gf" by simp
  with None assms show ?thesis
    by (auto simp: destroy_whisper_context_def)
next
  case (Some ctx)
  with assms show ?thesis
    by (auto simp: destroy_whisper_context_def null_and_notify_def)
qed

lemma destroy_buffers_ok:
  assumes "filter_invariant gf"
  shows "\<exists>es. destroy_buffers gf = Inr es \<and> \<not> list_ex engine_event es \<and>
           Release ` set (worker_resources gf) \<subseteq> set es"
proof -
  let ?es = "[MutexLock whisper_buf_lock, Release copy_buffers_mem] @
               map (\<lambda>i. Release (input_buffer_mem i)) [0..<channels gf] @
               [MutexUnlock whisper_buf_lock, Release info_buffer_mem,
                Release whisper_buf_mutex_mem, Release whisper_ctx_mutex_mem,
                Release wshiper_thread_cv_mem, Release text_source_mutex_mem,
                Release filter_data_mem]"
  have "destroy_buffers gf = Inr ?es"
    using assms by (auto simp: destroy_buffers_def release_if_def filter_invariant_def)
  moreover have "\<not> list_ex engine_event ?es"
    by (simp add: list_ex_iff image_iff)
  moreover have "Release ` set (worker_resources gf) \<subseteq> set ?es"
    by (auto simp: worker_resources_def)
  ultimately show ?thesis by blast
qed

lemma destroy_sinks_quiet: "\<not> list_ex engine_event (destroy_sinks gf)"
  by (simp add: destroy_sinks_def split: option.split)

lemma destroy_frame:
  "destroy_sinks (gf\<lparr>whisper_context := c, whisper_thread := t\<rparr>) = destroy_sinks gf"
  "worker_resources (gf\<lparr>whisper_context := c, whisper_thread := t\<rparr>) = worker_resources gf"
  "filter_invariant gf \<Longrightarrow> filter_invariant (gf\<lparr>whisper_context := None, whisper_thread := None\<rparr>)"
  by (simp_all add: destroy_sinks_def worker_resources_def filter_invariant_def)

text \<open>
  C4: destruction. On a filter with its invariant the destructor returns, and its history
  splits in three: first the log line and, under the engine lock, the free of the handle,
  the store of null and the notification (when there is a handle), with no release of
  memory; then the join of the worker thread (when there is one); and only then the
  releases, among them the copy buffers, every channel's ring buffer, the metadata queue,
  the three mutexes and the condition variable, with no engine event left.
\<close>

theorem destroy_order:
  assumes "filter_invariant gf"
  shows "\<exists>w' pre post.
           transcription_filter_destroy w gf = Inr w' \<and>
           history w' = history w @ pre @ join_events gf @ post \<and>
           \<not> list_ex release_event pre \<and>
           (case whisper_context gf of
              Some ctx \<Rightarrow>
                pre = ObsLog (log_level gf) ''transcription_filter_destroy'' # null_and_notify ctx
            | None \<Rightarrow> \<not> list_ex engine_event pre) \<and>
           (case whisper_thread gf of
              Some t \<Rightarrow> join_events gf = [ThreadJoin t]
            | None \<Rightarrow> join_events gf = []) \<and>
           \<not> list_ex engine_event post \<and>
           Release ` set (worker_resources gf) \<subseteq> set post"
proof -
  have inv: "whisper_ctx_mutex gf \<noteq> None" "wshiper_thread_cv gf \<noteq> None"
    using assms by (simp_all add: filter_invariant_def)
  let ?c = "case whisper_context gf of
                  Some ctx \<Rightarrow> null_and_notify ctx
                | None \<Rightarrow> [MutexLock whisper_ctx_lock, MutexUnlock whisper_ctx_lock]"
  let ?pre = "ObsLog (log_level gf) ''transcription_filter_destroy'' # ?c"
  let ?gf2 = "gf\<lparr>whisper_context := None, whisper_thread := None\<rparr>"
  obtain es where b: "destroy_buffers ?gf2 = Inr es" "\<not> list_ex engine_event es"
    "Release ` set (worker_resources gf) \<subseteq> set es"
    using destroy_buffers_ok [OF destroy_frame(3) [OF assms]] by (auto simp: destroy_frame)
  let ?post = "destroy_sinks gf @ es"
  have d: "transcription_filter_destroy w gf = Inr (emit (?pre @ join_events gf @ ?post) w)"
    by (simp add: transcription_filter_destroy_def destroy_whisper_context_ok [OF inv]
        join_whisper_thread_eq b(1) destroy_frame obs_log_def emit_emit)
  have p1: "\<not> list_ex release_event ?pre"
    by (simp add: null_and_notify_def split: option.split)
  have p2: "case whisper_context gf of
              Some ctx \<Rightarrow>
                ?pre = ObsLog (log_level gf) ''transcription_filter_destroy'' # null_and_notify ctx
            | None \<Rightarrow> \<not> list_ex engine_event ?pre"
    by (simp split: option.split)
  have j: "case whisper_thread gf of
              Some t \<Rightarrow> join_events gf = [ThreadJoin t]
            | None \<Rightarrow> join_events gf = []"
    by (simp add: join_events_def split: option.split)
  have q1: "\<not> list_ex engine_event ?post"
    using b(2) destroy_sinks_quiet [of gf] by simp
  have q2: "Release ` set (worker_resources gf) \<subseteq> set ?post"
    using b(3) by auto
  have h: "history (emit (?pre @ join_events gf @ ?post) w) =
             history w @ ?pre @ join_events gf @ ?post"
    by simp
  show ?thesis
    using d h p1 p2 j q1 q2
    by (intro exI [of _ "emit (?pre @ join_events gf @ ?post) w"] exI [of _ ?pre]
        exI [of _ ?post] conjI)
qed

lemma upt_0_2: "[0..<2] = [0, Suc 0]"
  by (simp add: numeral_2_eq_2)

lemma example_filter_destroy:
  "join_events example_filter = [ThreadJoin (Thread 0)]"
  "log_level example_filter = 400"
  "worker_resources example_filter =
     [copy_buffers_mem, input_buffer_mem 0, input_buffer_mem 1, info_buffer_mem,
      whisper_buf_mutex_mem, whisper_ctx_mutex_mem, wshiper_thread_cv_mem,
      text_source_mutex_mem]"
  by (simp_all add: join_events_def worker_resources_def example_filter_def
      zero_filter_data_def upt_0_2)

theorem destroy_order_witness:
  "filter_invariant example_filter \<and>
   (\<exists>w' post.
      transcription_filter_destroy example_world example_filter = Inr w' \<and>
      history w' =
        ObsLog 400 ''transcription_filter_destroy'' # null_and_notify (WhisperContext 0) @
        ThreadJoin (Thread 0) # post \<and>
      \<not> list_ex engine_event post \<and>
      Release copy_buffers_mem \<in> set post \<and> Release (input_buffer_mem 0) \<in> set post \<and>
      Release (input_buffer_mem 1) \<in> set post \<and> Release info_buffer_mem \<in> set post \<and>
      Release whisper_buf_mutex_mem \<in> set post \<and> Release whisper_ctx_mutex_mem \<in> set post \<and>
      Release wshiper_thread_cv_mem \<in> set post \<and> Release text_source_mutex_mem \<in> set post)"
proof -
  from destroy_order [OF example_filter_invariant, of example_world]
  obtain w' pre post where 1:
    "transcription_filter_destroy example_world example_filter = Inr w'"
    "history w' = history example_world @ pre @ join_events example_filter @ post"
    "pre = ObsLog (log_level example_filter) ''transcription_filter_destroy'' #
             null_and_notify (WhisperContext 0)"
    "\<not> list_ex engine_event post"
    "Release ` set (worker_resources example_filter) \<subseteq> set post"
    by (auto simp: example_filter_engine)
  from 1(2,3) have h: "history w' =
        ObsLog 400 ''transcription_filter_destroy'' # null_and_notify (WhisperContext 0) @
        ThreadJoin (Thread 0) # post"
    by (simp add: example_filter_destroy example_world_models)
  from 1(5) have r: "Release copy_buffers_mem \<in> set post" "Release (input_buffer_mem 0) \<in> set post"
      "Release (input_buffer_mem 1) \<in> set post" "Release info_buffer_mem \<in> set post"
      "Release whisper_buf_mutex_mem \<in> set post" "Release whisper_ctx_mutex_mem \<in> set post"
      "Release wshiper_thread_cv_mem \<in> set post" "Release text_source_mutex_mem \<in> set post"
    by (auto simp: example_filter_destroy)
  show ?thesis
    using example_filter_invariant 1(1) h 1(4) r by blast
qed

subsection \<open>Missing locks\<close>

text \<open>
  The guards of lines 73 and 301, on states without the invariant: a swap that finds an
  engine handle but no engine lock (or no condition variable) logs an error and returns
  with the engine, the worker and the model path as they were; an ingest that finds a
  lock missing returns the packet and buffers nothing.
\<close>

lemma release_whisper_context_guard:
  assumes "whisper_context gf \<noteq> None"
    and "whisper_ctx_mutex gf = None \<or> wshiper_thread_cv gf = None"
  shows "release_whisper_context w gf =
           Returned (emit [ObsLog LOG_ERROR ''whisper_ctx_mutex is null''] w, gf)"
  using assms by (auto simp: release_whisper_context_def obs_log_def)

lemma update_missing_engine_lock:
  assumes "whisper_context gf \<noteq> None"
    and "whisper_ctx_mutex gf = None \<or> wshiper_thread_cv gf = None"
    and "obs_data_get_string s ''whisper_model_path'' \<noteq> whisper_model_path gf"
  shows "\<exists>w' gf' es. transcription_filter_update w gf s = Inr (w', gf') \<and>
           history w' = history w @ es \<and> list_ex error_event es \<and>
           \<not> list_ex engine_event es \<and> engine_unchanged gf gf'"
proof -
  obtain es gf1 where p: "\<not> list_ex engine_event es" "engine_unchanged gf gf1"
    and c: "text_source_mutex gf = None \<and> list_ex error_event es \<and>
        transcription_filter_update w gf s = Inr (emit es w, gf1) \<or>
      transcription_filter_update w gf s =
        (case update_whisper_model (emit es w) gf1 s of
           Inl c \<Rightarrow> Inl c
         | Inr (Returned x) \<Rightarrow> Inr x
         | Inr (Next (w3, gf3)) \<Rightarrow> Inr (update_whisper_params w3 gf3 s))"
    using update_prefix [of gf w s] by blast
  from c show ?thesis
  proof
    assume "text_source_mutex gf = None \<and> list_ex error_event es \<and>
        transcription_filter_update w gf s = Inr (emit es w, gf1)"
    then show ?thesis
      using p by (intro exI [of _ "emit es w"] exI [of _ gf1] exI [of _ es]) simp
  next
    assume u: "transcription_filter_update w gf s =
        (case update_whisper_model (emit es w) gf1 s of
           Inl c \<Rightarrow> Inl c
         | Inr (Returned x) \<Rightarrow> Inr x
         | Inr (Next (w3, gf3)) \<Rightarrow> Inr (update_whisper_params w3 gf3 s))"
    have g: "whisper_context gf1 \<noteq> None"
      "whisper_ctx_mutex gf1 = None \<or> wshiper_thread_cv gf1 = None"
      "obs_data_get_string s ''whisper_model_path'' \<noteq> whisper_model_path gf1"
      using assms p(2) by (simp_all add: engine_unchanged_def)
    let ?es = "es @ [ObsLog LOG_INFO ''model path changed, reloading model'',
                     ObsLog LOG_ERROR ''whisper_ctx_mutex is null'']"
    have "update_whisper_model (emit es w) gf1 s = Inr (Returned (emit ?es w, gf1))"
      using g(3)
      by (simp add: update_whisper_model_def release_whisper_context_guard [OF g(1,2)]
          obs_log_def emit_emit)
    then have "transcription_filter_update w gf s = Inr (emit ?es w, gf1)"
      by (simp add: u)
    moreover have "list_ex error_event ?es" "\<not> list_ex engine_event ?es"
      using p(1) by simp_all
    ultimately show ?thesis
      using p(2) by (intro exI [of _ "emit ?es w"] exI [of _ gf1] exI [of _ ?es]) simp
  qed
qed

lemma filter_audio_missing_lock:
  assumes "whisper_buf_mutex gf = None \<or> whisper_ctx_mutex gf = None"
  shows "\<exists>w'. transcription_filter_filter_audio w (Some gf) (Some a) = (w', Some gf, Some a)"
  using assms by (auto simp: transcription_filter_filter_audio_def)

subsection \<open>Crashes\<close>

text \<open>
  Where the program does crash: a completion callback that finds a joinable worker in the
  state, a destructor that finds no engine lock. A publish never crashes.
\<close>

lemma download_callback_terminates:
  "whisper_thread gf = Some t \<Longrightarrow> download_callback w gf 0 = Inl Terminate"
  by (simp add: download_callback_def load_whisper_context_eq start_whisper_thread_def Let_def)

lemma destroy_without_lock:
  "whisper_ctx_mutex gf = None \<Longrightarrow> transcription_filter_destroy w gf = Inl NullDereference"
  by (simp add: transcription_filter_destroy_def destroy_whisper_context_def)

lemma publish_total:
  "\<exists>w' gf'. set_text_callback w gf str = Inr (w', gf')"
  by (auto simp: set_text_callback_def acquire_weak_text_source_ref_def Let_def
      ofstream_open_trunc_def split: option.split)
end
